theory Spec2Isabelle
  imports Complex_Main
begin

section \<open>Numbers and vectors\<close>

text \<open>
  JavaScript numbers are modelled as real numbers: rounding is not modelled.  The special
  values Infinity and NaN matter in two places: where a divisor is zero (the section on
  degenerate inputs; every theorem about the real-valued model that depends on a division
  states that its divisor is not zero), and where a value that is not a number is read as
  one, as \<^verbatim>\<open>Math.min\<close> and \<^verbatim>\<open>Math.max\<close> do with an object's id.  \<open>jsnum\<close> is a number with
  these values; zero has no sign.
\<close>

datatype jsnum = Num real | PInf | NInf | NaN

text \<open>The comparison \<^verbatim>\<open><\<close>: false as soon as an operand is \<^verbatim>\<open>NaN\<close>.\<close>

fun js_lt :: "jsnum \<Rightarrow> jsnum \<Rightarrow> bool" where
  "js_lt NaN _ = False"
| "js_lt _ NaN = False"
| "js_lt (Num a) (Num b) = (a < b)"
| "js_lt _ NInf = False"
| "js_lt NInf _ = True"
| "js_lt PInf _ = False"
| "js_lt _ PInf = True"

text \<open>\<^verbatim>\<open>Math.min\<close> and \<^verbatim>\<open>Math.max\<close> of two arguments: \<^verbatim>\<open>NaN\<close> as soon as an argument is.\<close>

definition js_min :: "jsnum \<Rightarrow> jsnum \<Rightarrow> jsnum" where
  "js_min a b = (if a = NaN \<or> b = NaN then NaN else if js_lt b a then b else a)"

definition js_max :: "jsnum \<Rightarrow> jsnum \<Rightarrow> jsnum" where
  "js_max a b = (if a = NaN \<or> b = NaN then NaN else if js_lt a b then b else a)"

text \<open>\<^verbatim>\<open>class Vector2\<close> (Vector2.js); the fields \<^verbatim>\<open>x\<close> and \<^verbatim>\<open>y\<close> are called
  \<open>vec_x\<close> and \<open>vec_y\<close>.\<close>

record Vector2 =
  vec_x :: real
  vec_y :: real

definition Vector2_zero :: Vector2 where
  "Vector2_zero = \<lparr>vec_x = 0, vec_y = 0\<rparr>"

definition Vector2_add :: "Vector2 \<Rightarrow> Vector2 \<Rightarrow> Vector2" where
  "Vector2_add a b = \<lparr>vec_x = vec_x a + vec_x b, vec_y = vec_y a + vec_y b\<rparr>"

definition Vector2_subtract :: "Vector2 \<Rightarrow> Vector2 \<Rightarrow> Vector2" where
  "Vector2_subtract a b = \<lparr>vec_x = vec_x a - vec_x b, vec_y = vec_y a - vec_y b\<rparr>"

definition Vector2_multiply :: "Vector2 \<Rightarrow> real \<Rightarrow> Vector2" where
  "Vector2_multiply a s = \<lparr>vec_x = vec_x a * s, vec_y = vec_y a * s\<rparr>"

definition Vector2_divide :: "Vector2 \<Rightarrow> real \<Rightarrow> Vector2" where
  "Vector2_divide a s = \<lparr>vec_x = vec_x a / s, vec_y = vec_y a / s\<rparr>"

definition Vector2_magnitude :: "Vector2 \<Rightarrow> real" where
  "Vector2_magnitude a = sqrt (vec_x a * vec_x a + vec_y a * vec_y a)"

definition Vector2_magnitudeSquared :: "Vector2 \<Rightarrow> real" where
  "Vector2_magnitudeSquared a = vec_x a * vec_x a + vec_y a * vec_y a"

definition Vector2_normalized :: "Vector2 \<Rightarrow> Vector2" where
  "Vector2_normalized a =
     (let mag = Vector2_magnitude a
      in if mag = 0 then Vector2_zero else \<lparr>vec_x = vec_x a / mag, vec_y = vec_y a / mag\<rparr>)"

text \<open>\<^verbatim>\<open>normalize()\<close> works in place and does nothing unless the magnitude is greater
  than 0.\<close>

definition Vector2_normalize :: "Vector2 \<Rightarrow> Vector2" where
  "Vector2_normalize a =
     (let mag = Vector2_magnitude a
      in if mag > 0 then \<lparr>vec_x = vec_x a / mag, vec_y = vec_y a / mag\<rparr> else a)"

definition Vector2_dot :: "Vector2 \<Rightarrow> Vector2 \<Rightarrow> real" where
  "Vector2_dot a b = vec_x a * vec_x b + vec_y a * vec_y b"

section \<open>GameObject\<close>

text \<open>The object returned by \<^verbatim>\<open>getBounds()\<close>, also the shape of \<^verbatim>\<open>collisionBounds\<close>.\<close>

record Bounds =
  b_x :: real
  b_y :: real
  b_width :: real
  b_height :: real

text \<open>
  The fields of \<^verbatim>\<open>class GameObject\<close> (GameObject.js) that the simulation core reads or
  writes.  \<^verbatim>\<open>id\<close> and \<^verbatim>\<open>size\<close> are called \<open>obj_id\<close> and \<open>obj_size\<close>.  A field that is
  \<^verbatim>\<open>null\<close> or an array is an \<open>option\<close>.  A callback field is modelled by whether it is
  set; calling it is recorded as an event (see the physics section).

  The only reader of \<^verbatim>\<open>id\<close> in the simulation core is the pair key of the spatial grid,
  which passes it to \<^verbatim>\<open>Math.min\<close> and \<^verbatim>\<open>Math.max\<close>; these convert their arguments to
  numbers.  \<open>obj_id\<close> is the id as they read it: the counter value for an id drawn by the
  constructor, and \<^verbatim>\<open>NaN\<close> for an id that does not read as a number, such as the ids
  \<^verbatim>\<open>'enemy_1'\<close> or \<^verbatim>\<open>'start'\<close> of the level data, which \<^verbatim>\<open>World.createEntityFromData\<close> and
  \<^verbatim>\<open>World.loadCheckpoints\<close> assign to the objects they build (\<^verbatim>\<open>enemy.id = data.id\<close>).
\<close>

record GameObject =
  obj_id :: jsnum
  position :: Vector2
  velocity :: Vector2
  acceleration :: Vector2
  obj_size :: Vector2
  mass :: real
  friction :: real
  bounciness :: real
  gravityScale :: real
  active :: bool
  solid :: bool
  destroyed :: bool
  collisionBounds :: "Bounds option"
  collisionLayers :: "string list option"
  collisionMask :: "string list option"
  isTrigger :: bool
  tags :: "string set"
  has_onCollision :: bool
  has_onTriggerEnter :: bool

definition getBounds :: "'a GameObject_scheme \<Rightarrow> Bounds" where
  "getBounds obj =
     (case collisionBounds obj of
        Some cb \<Rightarrow> \<lparr>b_x = vec_x (position obj) + b_x cb, b_y = vec_y (position obj) + b_y cb,
                   b_width = b_width cb, b_height = b_height cb\<rparr>
      | None \<Rightarrow> \<lparr>b_x = vec_x (position obj), b_y = vec_y (position obj),
                 b_width = vec_x (obj_size obj), b_height = vec_y (obj_size obj)\<rparr>)"

definition getCenter :: "'a GameObject_scheme \<Rightarrow> Vector2" where
  "getCenter obj =
     (let bounds = getBounds obj
      in \<lparr>vec_x = b_x bounds + b_width bounds / 2, vec_y = b_y bounds + b_height bounds / 2\<rparr>)"

definition hasTag :: "'a GameObject_scheme \<Rightarrow> string \<Rightarrow> bool" where
  "hasTag obj tag = (tag \<in> tags obj)"

definition addForce :: "Vector2 \<Rightarrow> 'a GameObject_scheme \<Rightarrow> 'a GameObject_scheme" where
  "addForce force obj =
     obj\<lparr>acceleration := Vector2_add (acceleration obj) (Vector2_divide force (mass obj))\<rparr>"

definition addImpulse :: "Vector2 \<Rightarrow> 'a GameObject_scheme \<Rightarrow> 'a GameObject_scheme" where
  "addImpulse impulse obj =
     obj\<lparr>velocity := Vector2_add (velocity obj) (Vector2_divide impulse (mass obj))\<rparr>"

text \<open>\<^verbatim>\<open>new GameObject(x, y, width, height)\<close>; the id is drawn from the global counter
  \<^verbatim>\<open>GameObject.idCounter\<close>, here an argument.\<close>

definition GameObject_new :: "nat \<Rightarrow> real \<Rightarrow> real \<Rightarrow> real \<Rightarrow> real \<Rightarrow> GameObject" where
  "GameObject_new i x y w h =
     \<lparr>obj_id = Num (real i), position = \<lparr>vec_x = x, vec_y = y\<rparr>, velocity = \<lparr>vec_x = 0, vec_y = 0\<rparr>,
      acceleration = \<lparr>vec_x = 0, vec_y = 0\<rparr>, obj_size = \<lparr>vec_x = w, vec_y = h\<rparr>,
      mass = 1, friction = 0.8, bounciness = 0, gravityScale = 1,
      active = True, solid = True, destroyed = False,
      collisionBounds = None, collisionLayers = Some [''default''],
      collisionMask = Some [''default''], isTrigger = False, tags = {},
      has_onCollision = False, has_onTriggerEnter = False\<rparr>"

section \<open>Player\<close>

text \<open>An entry of \<^verbatim>\<open>Player.abilities\<close>; a missing \<^verbatim>\<open>active\<close> property is falsy.\<close>

record ability =
  enabled :: bool
  level :: int
  cooldown :: real
  maxCooldown :: real
  ab_active :: bool

record Player = GameObject +
  maxHealth :: real
  health :: real
  lives :: int
  invulnerabilityTime :: real
  invulnerabilityDuration :: real
  abilities :: "string \<rightharpoonup> ability"

text \<open>\<^verbatim>\<open>addAbility(name, properties)\<close>, with the properties the model keeps.\<close>

definition addAbility :: "string \<Rightarrow> bool \<Rightarrow> int \<Rightarrow> real \<Rightarrow> (string \<rightharpoonup> ability) \<Rightarrow> (string \<rightharpoonup> ability)" where
  "addAbility name en lv cd m =
     m(name \<mapsto> \<lparr>enabled = en, level = lv, cooldown = cd, maxCooldown = cd, ab_active = False\<rparr>)"

definition setupDefaultAbilities :: "string \<rightharpoonup> ability" where
  "setupDefaultAbilities =
     (addAbility ''lightSource'' False 0 0 \<circ> addAbility ''highJump'' False 0 0
      \<circ> addAbility ''speedBoost'' False 0 0 \<circ> addAbility ''shield'' False 0 0
      \<circ> addAbility ''invisibility'' False 0 0 \<circ> addAbility ''timeFreeze'' False 0 0
      \<circ> addAbility ''magnetism'' False 0 0 \<circ> addAbility ''phaseThrough'' False 0 0
      \<circ> addAbility ''swim'' False 0 0 \<circ> addAbility ''noFallDamage'' False 0 0
      \<circ> addAbility ''rangedAttack'' False 0 0 \<circ> addAbility ''attack'' False 0 0
      \<circ> addAbility ''glide'' False 0 0 \<circ> addAbility ''wallClimb'' False 0 0
      \<circ> addAbility ''wallJump'' False 0 0 \<circ> addAbility ''wallSlide'' False 0 0
      \<circ> addAbility ''dash'' False 0 0 \<circ> addAbility ''tripleJump'' False 0 0
      \<circ> addAbility ''doubleJump'' False 0 0 \<circ> addAbility ''jump'' True 1 0
      \<circ> addAbility ''move'' True 1 0) Map.empty"

text \<open>\<^verbatim>\<open>new Player(x, y)\<close>.  The class declares a method \<^verbatim>\<open>onCollision\<close>, but the
  constructor of \<^verbatim>\<open>GameObject\<close> assigns \<^verbatim>\<open>this.onCollision = null\<close> on the object itself,
  and that property hides the method: the callback field stays unset.\<close>

definition Player_new :: "nat \<Rightarrow> real \<Rightarrow> real \<Rightarrow> Player" where
  "Player_new i x y =
     GameObject.extend
       ((GameObject_new i x y 24 32)
          \<lparr>tags := {''player''}, collisionLayers := Some [''player''],
           collisionMask := Some [''solid'', ''platform'', ''enemy'', ''pickup'', ''hazard''],
           mass := 1, friction := 0.15, bounciness := 0, gravityScale := 1\<rparr>)
       (Player.fields 100 100 3 0 1 setupDefaultAbilities)"

text \<open>What a Player method asks of its collaborators (\<^verbatim>\<open>window.game\<close>).\<close>

datatype effect = PlaySound string | GameOver

definition hasAbility :: "Player \<Rightarrow> string \<Rightarrow> bool" where
  "hasAbility p name = (case abilities p name of None \<Rightarrow> False | Some a \<Rightarrow> enabled a)"

text \<open>
  \<^verbatim>\<open>respawn()\<close>; the argument is the position of
  \<^verbatim>\<open>window.game.world.getCurrentCheckpoint()\<close>, \<open>None\<close> when there is no game, world or
  current checkpoint.
\<close>

definition respawn :: "Vector2 option \<Rightarrow> Player \<Rightarrow> Player" where
  "respawn checkpoint p =
     (let p1 = p\<lparr>health := maxHealth p, invulnerabilityTime := invulnerabilityDuration p * 2\<rparr>;
          p2 = (case checkpoint of Some c \<Rightarrow> p1\<lparr>position := c\<rparr> | None \<Rightarrow> p1)
      in p2\<lparr>velocity := \<lparr>vec_x = 0, vec_y = 0\<rparr>\<rparr>)"

definition die :: "Vector2 option \<Rightarrow> Player \<Rightarrow> Player \<times> effect list" where
  "die checkpoint p =
     (let p1 = p\<lparr>lives := lives p - 1\<rparr>
      in if lives p1 > 0 then (respawn checkpoint p1, [PlaySound ''death''])
         else (p1, [GameOver, PlaySound ''death'']))"

text \<open>The shield test of \<^verbatim>\<open>takeDamage\<close>:
  \<^verbatim>\<open>this.hasAbility('shield') && this.abilities.get('shield').active\<close>.\<close>

definition shieldBlocks :: "Player \<Rightarrow> bool" where
  "shieldBlocks p =
     (hasAbility p ''shield''
      \<and> (case abilities p ''shield'' of Some a \<Rightarrow> ab_active a | None \<Rightarrow> False))"

text \<open>
  \<^verbatim>\<open>takeDamage(amount, source = null)\<close>: the returned boolean, the new state and the
  effects.  \<open>source\<close> is the damaging object when one is given.
\<close>

definition takeDamage ::
  "real \<Rightarrow> 'a GameObject_scheme option \<Rightarrow> Vector2 option \<Rightarrow> Player \<Rightarrow> bool \<times> Player \<times> effect list" where
  "takeDamage amount source checkpoint p =
     (if invulnerabilityTime p > 0 then (False, p, [])
      else if shieldBlocks p then (False, p, [])
      else
        let p1 = p\<lparr>health := health p - amount, invulnerabilityTime := invulnerabilityDuration p\<rparr>;
            p2 = (case source of
                    Some s \<Rightarrow>
                      let knockbackDirection =
                            Vector2_normalized (Vector2_subtract (getCenter p1) (getCenter s))
                      in addImpulse (Vector2_multiply knockbackDirection 200) p1
                  | None \<Rightarrow> p1);
            (p3, es) = (if health p2 \<le> 0 then die checkpoint p2 else (p2, []))
        in (True, p3, es @ [PlaySound ''hurt'']))"

text \<open>\<^verbatim>\<open>heal(amount)\<close>: the new state and the sound played.\<close>

definition heal :: "real \<Rightarrow> Player \<Rightarrow> Player \<times> effect list" where
  "heal amount p = (p\<lparr>health := min (maxHealth p) (health p + amount)\<rparr>, [PlaySound ''heal''])"

section \<open>Enemy\<close>

datatype ai_state = patrol | chase | attack | investigate

text \<open>The fields of \<^verbatim>\<open>class Enemy\<close> that the patrol behaviour reads or writes.\<close>

record Enemy = GameObject +
  speed :: real
  aiState :: ai_state
  stateTimer :: real
  direction :: real
  patrolDistance :: real
  startPosition :: Vector2

text \<open>\<^verbatim>\<open>new Enemy(x, y)\<close> with the default type \<^verbatim>\<open>'basic'\<close>.  As for the player, the
  method \<^verbatim>\<open>onCollision\<close> of the class is hidden by the \<^verbatim>\<open>null\<close> that the constructor of
  \<^verbatim>\<open>GameObject\<close> assigns.\<close>

definition Enemy_new :: "nat \<Rightarrow> real \<Rightarrow> real \<Rightarrow> Enemy" where
  "Enemy_new i x y =
     GameObject.extend
       ((GameObject_new i x y 32 32)
          \<lparr>mass := 2, friction := 0.3, tags := {''enemy''}, collisionLayers := Some [''enemy''],
           collisionMask := Some [''solid'', ''platform'', ''player'', ''projectile'']\<rparr>)
       (Enemy.fields 100 patrol 0 1 100 \<lparr>vec_x = x, vec_y = y\<rparr>)"

definition updatePatrol :: "real \<Rightarrow> Enemy \<Rightarrow> Enemy" where
  "updatePatrol deltaTime e =
     (let distanceFromStart = \<bar>vec_x (position e) - vec_x (startPosition e)\<bar>;
          e1 = (if distanceFromStart \<ge> patrolDistance e \<or> stateTimer e > 3
                then e\<lparr>direction := direction e * (- 1), stateTimer := 0\<rparr> else e)
      in e1\<lparr>velocity := (velocity e1)\<lparr>vec_x := direction e1 * speed e1 * 0.5\<rparr>\<rparr>)"


section \<open>Physics\<close>

text \<open>
  \<^verbatim>\<open>Physics.update(world, deltaTime)\<close> works on \<^verbatim>\<open>world.gameObjects\<close>.  The array is
  modelled as the list of the objects' states, and a reference to an object as its index
  in that list; this presupposes that no object occurs twice in the array.  The functions
  are polymorphic in the extension of the \<open>GameObject\<close> record, so that the list may
  hold players or enemies.
\<close>

type_synonym ref = nat

text \<open>The collision record returned by \<^verbatim>\<open>checkAABBCollision\<close> and an entry of
  \<^verbatim>\<open>this.collisionPairs\<close>.\<close>

record collision_info =
  normal :: Vector2
  penetration :: real
  point :: Vector2

record collision_pair =
  objectA :: ref
  objectB :: ref
  collision :: collision_info

text \<open>
  A callback (\<^verbatim>\<open>onTriggerEnter\<close>, \<^verbatim>\<open>onCollision\<close>) is user code.  The model records each
  call as an event: the receiver, then the other object.  What the callback itself does
  to the state is not part of Physics and is not modelled.
\<close>

datatype event = TriggerEnter ref ref | Collision ref ref

record Physics =
  gravity :: Vector2
  terminalVelocity :: real
  cellSize :: real
  collisionMatrix :: "string \<rightharpoonup> string set"
  subSteps :: nat

definition setLayerCollision :: "string \<Rightarrow> string list \<Rightarrow> Physics \<Rightarrow> Physics" where
  "setLayerCollision layer1 layers ph =
     ph\<lparr>collisionMatrix := (collisionMatrix ph)(layer1 \<mapsto> set layers)\<rparr>"

definition setupDefaultCollisionLayers :: "Physics \<Rightarrow> Physics" where
  "setupDefaultCollisionLayers =
     setLayerCollision ''platform'' [''player'', ''enemy'']
     \<circ> setLayerCollision ''solid'' [''player'', ''enemy'', ''projectile'']
     \<circ> setLayerCollision ''pickup'' [''player'']
     \<circ> setLayerCollision ''projectile'' [''solid'', ''enemy'']
     \<circ> setLayerCollision ''enemy'' [''solid'', ''platform'', ''player'', ''projectile'']
     \<circ> setLayerCollision ''player'' [''solid'', ''platform'', ''enemy'', ''pickup'']"

text \<open>\<^verbatim>\<open>new Physics()\<close>; \<open>cellSize\<close> is the cell size of its \<^verbatim>\<open>SpatialGrid\<close>.\<close>

definition Physics_new :: Physics where
  "Physics_new =
     setupDefaultCollisionLayers
       \<lparr>gravity = \<lparr>vec_x = 0, vec_y = 980\<rparr>, terminalVelocity = 1000, cellSize = 64,
        collisionMatrix = Map.empty, subSteps = 4\<rparr>"

text \<open>\<^verbatim>\<open>canLayersCollide\<close>: \<^verbatim>\<open>undefined\<close> (falsy) for a layer without an entry.\<close>

definition canLayersCollide :: "Physics \<Rightarrow> string \<Rightarrow> string \<Rightarrow> bool" where
  "canLayersCollide ph layer1 layer2 =
     (case collisionMatrix ph layer1 of None \<Rightarrow> False | Some layer1Collisions \<Rightarrow> layer2 \<in> layer1Collisions)"

subsection \<open>Gravity and integration\<close>

text \<open>The body of the loop of \<^verbatim>\<open>applyGravity\<close>, for one object.\<close>

definition applyGravity_obj :: "Physics \<Rightarrow> 'a GameObject_scheme \<Rightarrow> 'a GameObject_scheme" where
  "applyGravity_obj ph obj =
     (if active obj \<and> \<not> destroyed obj \<and> gravityScale obj > 0 then
        let gravityForce = Vector2_multiply (gravity ph) (gravityScale obj * mass obj);
            obj1 = addForce gravityForce obj
        in if vec_y (velocity obj1) > terminalVelocity ph
           then obj1\<lparr>velocity := (velocity obj1)\<lparr>vec_y := terminalVelocity ph\<rparr>\<rparr>
           else obj1
      else obj)"

definition applyGravity :: "Physics \<Rightarrow> 'a GameObject_scheme list \<Rightarrow> 'a GameObject_scheme list" where
  "applyGravity ph objects = map (applyGravity_obj ph) objects"

definition integrateVelocity :: "real \<Rightarrow> 'a GameObject_scheme \<Rightarrow> 'a GameObject_scheme" where
  "integrateVelocity deltaTime obj =
     obj\<lparr>velocity := Vector2_add (velocity obj) (Vector2_multiply (acceleration obj) deltaTime),
         acceleration := \<lparr>vec_x = 0, vec_y = 0\<rparr>\<rparr>"

definition integratePosition :: "real \<Rightarrow> 'a GameObject_scheme \<Rightarrow> 'a GameObject_scheme" where
  "integratePosition deltaTime obj =
     obj\<lparr>position := Vector2_add (position obj) (Vector2_multiply (velocity obj) deltaTime)\<rparr>"

subsection \<open>SpatialGrid\<close>

text \<open>
  \<^verbatim>\<open>this.grid\<close> is a JavaScript \<^verbatim>\<open>Map\<close> from the key \<^verbatim>\<open>`${x},${y}`\<close> to an array of
  objects; a \<^verbatim>\<open>Map\<close> iterates in the order in which its keys were first set.  It is
  modelled as an association list in that order, with the pair of integers for the key
  (the text of the key determines the pair).
\<close>

type_synonym cell_key = "int \<times> int"

type_synonym 'r grid = "(cell_key \<times> 'r list) list"

definition getCellsForBounds :: "real \<Rightarrow> Bounds \<Rightarrow> cell_key list" where
  "getCellsForBounds cs bounds =
     (let startX = \<lfloor>b_x bounds / cs\<rfloor>;
          endX = \<lfloor>(b_x bounds + b_width bounds) / cs\<rfloor>;
          startY = \<lfloor>b_y bounds / cs\<rfloor>;
          endY = \<lfloor>(b_y bounds + b_height bounds) / cs\<rfloor>
      in concat (map (\<lambda>x. map (\<lambda>y. (x, y)) [startY..endY]) [startX..endX]))"

text \<open>One pass of the loop of \<^verbatim>\<open>addObject\<close>:
  \<^verbatim>\<open>if (!grid.has(k)) grid.set(k, []); grid.get(k).push(obj)\<close>.\<close>

fun grid_push :: "cell_key \<Rightarrow> 'r \<Rightarrow> 'r grid \<Rightarrow> 'r grid" where
  "grid_push k r [] = [(k, [r])]"
| "grid_push k r ((k', rs) # g) =
     (if k = k' then (k', rs @ [r]) # g else (k', rs) # grid_push k r g)"

definition SpatialGrid_addObject :: "cell_key list \<Rightarrow> 'r \<Rightarrow> 'r grid \<Rightarrow> 'r grid" where
  "SpatialGrid_addObject cells r g = foldl (\<lambda>g' cellKey. grid_push cellKey r g') g cells"

text \<open>\<^verbatim>\<open>clear()\<close> followed by \<^verbatim>\<open>addObjects(objects)\<close>.\<close>

definition addObjects :: "real \<Rightarrow> 'a GameObject_scheme list \<Rightarrow> ref grid" where
  "addObjects cs objects =
     foldl (\<lambda>g r. if active (objects ! r) \<and> \<not> destroyed (objects ! r)
                   then SpatialGrid_addObject (getCellsForBounds cs (getBounds (objects ! r))) r g
                   else g)
       [] [0..<length objects]"

text \<open>The pairs \<^verbatim>\<open>(objects[i], objects[j])\<close> with \<^verbatim>\<open>i < j\<close> of one cell, in the order of
  the two inner loops of \<^verbatim>\<open>getPotentialCollisionPairs\<close>.\<close>

fun cellPairs :: "'r list \<Rightarrow> ('r \<times> 'r) list" where
  "cellPairs [] = []"
| "cellPairs (a # rest) = map (Pair a) rest @ cellPairs rest"

text \<open>The key \<^verbatim>\<open>`${Math.min(a.id, b.id)}-${Math.max(a.id, b.id)}`\<close>, as the pair of
  the two numbers: two keys are the same text exactly when the two pairs are equal
  (\<^verbatim>\<open>NaN\<close> prints as \<^verbatim>\<open>NaN\<close>, so the key of two ids that do not read as numbers is
  \<^verbatim>\<open>NaN-NaN\<close> whatever the ids are).\<close>

definition pairKey :: "('r \<Rightarrow> jsnum) \<Rightarrow> 'r \<times> 'r \<Rightarrow> jsnum \<times> jsnum" where
  "pairKey idOf p = (js_min (idOf (fst p)) (idOf (snd p)), js_max (idOf (fst p)) (idOf (snd p)))"

text \<open>The body of the innermost loop, on the state \<^verbatim>\<open>(pairs, checked)\<close>.\<close>

definition emitPair ::
  "('r \<Rightarrow> jsnum) \<Rightarrow> ('r \<times> 'r) list \<times> (jsnum \<times> jsnum) set \<Rightarrow> 'r \<times> 'r
   \<Rightarrow> ('r \<times> 'r) list \<times> (jsnum \<times> jsnum) set" where
  "emitPair idOf st p =
     (if pairKey idOf p \<notin> snd st then (fst st @ [p], insert (pairKey idOf p) (snd st)) else st)"

text \<open>\<^verbatim>\<open>getPotentialCollisionPairs()\<close>; \<open>idOf\<close> reads the \<^verbatim>\<open>id\<close> of a referenced object.\<close>

definition getPotentialCollisionPairs :: "('r \<Rightarrow> jsnum) \<Rightarrow> 'r grid \<Rightarrow> ('r \<times> 'r) list" where
  "getPotentialCollisionPairs idOf g =
     fst (foldl (emitPair idOf) ([], {}) (concat (map (\<lambda>cell. cellPairs (snd cell)) g)))"

text \<open>
  \<^verbatim>\<open>getObjectsInRay(ray)\<close> declares \<^verbatim>\<open>const distance = 0\<close> and executes
  \<^verbatim>\<open>distance += step\<close> at the end of the first pass of its loop: an assignment to a
  constant, which throws a TypeError.  The loop is entered when \<^verbatim>\<open>0 < ray.maxDistance\<close>.
\<close>

datatype js_error = TypeError

definition getObjectsInRay :: "real \<Rightarrow> js_error + ref list" where
  "getObjectsInRay maxDistance = (if 0 < maxDistance then Inl TypeError else Inr [])"

subsection \<open>Collision detection\<close>

text \<open>A \<^verbatim>\<open>null\<close> or \<^verbatim>\<open>undefined\<close> list of layers stands for \<^verbatim>\<open>['default']\<close>.\<close>

definition orDefault :: "string list option \<Rightarrow> string list" where
  "orDefault ls = (case ls of Some l \<Rightarrow> l | None \<Rightarrow> [''default''])"

definition shouldCheckCollision :: "'a GameObject_scheme list \<Rightarrow> ref \<Rightarrow> ref \<Rightarrow> bool" where
  "shouldCheckCollision objects a b =
     (let objA = objects ! a; objB = objects ! b
      in if a = b then False
         else if destroyed objA \<or> destroyed objB \<or> \<not> active objA \<or> \<not> active objB then False
         else if \<not> solid objA \<and> \<not> solid objB \<and> \<not> isTrigger objA \<and> \<not> isTrigger objB then False
         else
           let layersA = orDefault (collisionLayers objA);
               layersB = orDefault (collisionLayers objB);
               maskA = orDefault (collisionMask objA);
               maskB = orDefault (collisionMask objB)
           in list_ex (\<lambda>layerA. list_ex (\<lambda>layerB. layerB \<in> set maskA \<or> layerA \<in> set maskB) layersB) layersA)"

definition checkAABBCollision :: "'a GameObject_scheme \<Rightarrow> 'a GameObject_scheme \<Rightarrow> collision_info option" where
  "checkAABBCollision objA objB =
     (let boundsA = getBounds objA; boundsB = getBounds objB
      in if b_x boundsA + b_width boundsA \<le> b_x boundsB
            \<or> b_x boundsB + b_width boundsB \<le> b_x boundsA
            \<or> b_y boundsA + b_height boundsA \<le> b_y boundsB
            \<or> b_y boundsB + b_height boundsB \<le> b_y boundsA
         then None
         else
           let overlapX = min (b_x boundsA + b_width boundsA) (b_x boundsB + b_width boundsB)
                          - max (b_x boundsA) (b_x boundsB);
               overlapY = min (b_y boundsA + b_height boundsA) (b_y boundsB + b_height boundsB)
                          - max (b_y boundsA) (b_y boundsB);
               pt = \<lparr>vec_x = max (b_x boundsA) (b_x boundsB) + overlapX / 2,
                     vec_y = max (b_y boundsA) (b_y boundsB) + overlapY / 2\<rparr>
           in if overlapX < overlapY
              then Some \<lparr>normal = (if b_x boundsA < b_x boundsB then \<lparr>vec_x = - 1, vec_y = 0\<rparr>
                                    else \<lparr>vec_x = 1, vec_y = 0\<rparr>),
                         penetration = overlapX, point = pt\<rparr>
              else Some \<lparr>normal = (if b_y boundsA < b_y boundsB then \<lparr>vec_x = 0, vec_y = - 1\<rparr>
                                    else \<lparr>vec_x = 0, vec_y = 1\<rparr>),
                         penetration = overlapY, point = pt\<rparr>)"

definition detectCollisions :: "'a GameObject_scheme list \<Rightarrow> ref grid \<Rightarrow> collision_pair list" where
  "detectCollisions objects g =
     concat (map (\<lambda>(a, b).
                if shouldCheckCollision objects a b
                then (case checkAABBCollision (objects ! a) (objects ! b) of
                        Some c \<Rightarrow> [\<lparr>objectA = a, objectB = b, collision = c\<rparr>]
                      | None \<Rightarrow> [])
                else [])
             (getPotentialCollisionPairs (\<lambda>r. obj_id (objects ! r)) g))"

subsection \<open>Collision resolution\<close>

definition positionalCorrection ::
  "'a GameObject_scheme \<Rightarrow> 'a GameObject_scheme \<Rightarrow> collision_info
   \<Rightarrow> 'a GameObject_scheme \<times> 'a GameObject_scheme" where
  "positionalCorrection objA objB c =
     (let correction = Vector2_multiply (normal c) (penetration c * 0.8);
          totalMass = mass objA + mass objB;
          ratioA = mass objB / totalMass;
          ratioB = mass objA / totalMass
      in if solid objA \<and> solid objB then
           (objA\<lparr>position := Vector2_subtract (position objA) (Vector2_multiply correction ratioA)\<rparr>,
            objB\<lparr>position := Vector2_add (position objB) (Vector2_multiply correction ratioB)\<rparr>)
         else if solid objA then
           (objA, objB\<lparr>position := Vector2_add (position objB) correction\<rparr>)
         else if solid objB then
           (objA\<lparr>position := Vector2_subtract (position objA) correction\<rparr>, objB)
         else (objA, objB))"

definition applyFriction ::
  "'a GameObject_scheme \<Rightarrow> 'a GameObject_scheme \<Rightarrow> collision_info \<Rightarrow> real
   \<Rightarrow> 'a GameObject_scheme \<times> 'a GameObject_scheme" where
  "applyFriction objA objB c normalImpulse =
     (let relativeVelocity = Vector2_subtract (velocity objB) (velocity objA);
          tangent0 = Vector2_subtract relativeVelocity
                       (Vector2_multiply (normal c) (Vector2_dot relativeVelocity (normal c)))
      in if Vector2_magnitudeSquared tangent0 < 0.001 then (objA, objB)
         else
           let tangent = Vector2_normalize tangent0;
               frictionCoefficient = sqrt (friction objA * friction objB);
               frictionImpulse = (- Vector2_dot relativeVelocity tangent)
                                 / (1 / mass objA + 1 / mass objB);
               frictionMagnitude = \<bar>normalImpulse\<bar> * frictionCoefficient;
               fr = (if \<bar>frictionImpulse\<bar> < frictionMagnitude
                     then Vector2_multiply tangent frictionImpulse
                     else Vector2_multiply tangent (- frictionMagnitude * sgn frictionImpulse));
               objA1 = (if solid objA \<and> \<not> hasTag objA ''static''
                        then objA\<lparr>velocity := Vector2_subtract (velocity objA)
                                                 (Vector2_multiply fr (1 / mass objA))\<rparr>
                        else objA);
               objB1 = (if solid objB \<and> \<not> hasTag objB ''static''
                        then objB\<lparr>velocity := Vector2_add (velocity objB)
                                                 (Vector2_multiply fr (1 / mass objB))\<rparr>
                        else objB)
           in (objA1, objB1))"

definition resolveVelocity ::
  "'a GameObject_scheme \<Rightarrow> 'a GameObject_scheme \<Rightarrow> collision_info
   \<Rightarrow> 'a GameObject_scheme \<times> 'a GameObject_scheme" where
  "resolveVelocity objA objB c =
     (let relativeVelocity = Vector2_subtract (velocity objB) (velocity objA);
          velocityAlongNormal = Vector2_dot relativeVelocity (normal c)
      in if velocityAlongNormal > 0 then (objA, objB)
         else
           let restitution = min (bounciness objA) (bounciness objB);
               impulseScalar = (- (1 + restitution) * velocityAlongNormal)
                               / (1 / mass objA + 1 / mass objB);
               impulse = Vector2_multiply (normal c) impulseScalar;
               objA1 = (if solid objA \<and> \<not> hasTag objA ''static''
                        then objA\<lparr>velocity := Vector2_subtract (velocity objA)
                                                 (Vector2_multiply impulse (1 / mass objA))\<rparr>
                        else objA);
               objB1 = (if solid objB \<and> \<not> hasTag objB ''static''
                        then objB\<lparr>velocity := Vector2_add (velocity objB)
                                                 (Vector2_multiply impulse (1 / mass objB))\<rparr>
                        else objB)
           in applyFriction objA1 objB1 c impulseScalar)"

text \<open>\<^verbatim>\<open>handleTriggerCollision\<close> and \<^verbatim>\<open>handleCollisionCallbacks\<close>: the calls made.\<close>

definition handleTriggerCollision :: "'a GameObject_scheme list \<Rightarrow> ref \<Rightarrow> ref \<Rightarrow> event list" where
  "handleTriggerCollision objects a b =
     (if isTrigger (objects ! a) \<and> has_onTriggerEnter (objects ! a) then [TriggerEnter a b] else [])
     @ (if isTrigger (objects ! b) \<and> has_onTriggerEnter (objects ! b) then [TriggerEnter b a] else [])"

definition handleCollisionCallbacks :: "'a GameObject_scheme list \<Rightarrow> ref \<Rightarrow> ref \<Rightarrow> event list" where
  "handleCollisionCallbacks objects a b =
     (if has_onCollision (objects ! a) then [Collision a b] else [])
     @ (if has_onCollision (objects ! b) then [Collision b a] else [])"

text \<open>
  \<^verbatim>\<open>resolveCollision(pair)\<close> on the state (objects, events so far).  The two objects of a
  pair are different objects, as \<^verbatim>\<open>shouldCheckCollision\<close> has rejected every other pair.
\<close>

definition resolveCollision ::
  "'a GameObject_scheme list \<times> event list \<Rightarrow> collision_pair
   \<Rightarrow> 'a GameObject_scheme list \<times> event list" where
  "resolveCollision st pair =
     (let objects = fst st; a = objectA pair; b = objectB pair;
          objA = objects ! a; objB = objects ! b
      in if isTrigger objA \<or> isTrigger objB
         then (objects, snd st @ handleTriggerCollision objects a b)
         else if \<not> solid objA \<and> \<not> solid objB then st
         else
           let (objA1, objB1) = positionalCorrection objA objB (collision pair);
               (objA2, objB2) = resolveVelocity objA1 objB1 (collision pair);
               objects2 = objects[a := objA2, b := objB2]
           in (objects2, snd st @ handleCollisionCallbacks objects2 a b))"

text \<open>\<^verbatim>\<open>resolveCollisions()\<close>: the stable sort by descending penetration, then the loop.\<close>

definition resolveCollisions ::
  "collision_pair list \<Rightarrow> 'a GameObject_scheme list \<times> event list
   \<Rightarrow> 'a GameObject_scheme list \<times> event list" where
  "resolveCollisions collisionPairs st =
     foldl resolveCollision st (sort_key (\<lambda>p. - penetration (collision p)) collisionPairs)"

subsection \<open>The update\<close>

definition physicsSubStep ::
  "ref grid \<Rightarrow> real \<Rightarrow> 'a GameObject_scheme list \<times> event list
   \<Rightarrow> 'a GameObject_scheme list \<times> event list" where
  "physicsSubStep g deltaTime st =
     (let objects1 = map (\<lambda>obj. if active obj \<and> \<not> destroyed obj \<and> gravityScale obj \<noteq> 0
                                 then integrateVelocity deltaTime obj else obj) (fst st);
          (objects2, events2) = resolveCollisions (detectCollisions objects1 g) (objects1, snd st)
      in (map (\<lambda>obj. if active obj \<and> \<not> destroyed obj then integratePosition deltaTime obj else obj)
            objects2,
          events2))"

text \<open>\<^verbatim>\<open>update(world, deltaTime)\<close>: the objects afterwards and the callbacks called, in
  order.\<close>

definition update :: "Physics \<Rightarrow> real \<Rightarrow> 'a GameObject_scheme list \<Rightarrow> 'a GameObject_scheme list \<times> event list" where
  "update ph deltaTime objects =
     (let objects1 = applyGravity ph objects;
          g = addObjects (cellSize ph) objects1;
          subDeltaTime = deltaTime / real (subSteps ph)
      in (physicsSubStep g subDeltaTime ^^ subSteps ph) (objects1, []))"


section \<open>World\<close>


text \<open>
  The World holds references to objects in three arrays and in its layers, and
  \<^verbatim>\<open>indexOf\<close> compares references; so here the arrays are lists of references and the
  objects live in a store \<open>ref \<Rightarrow> world_object\<close>.  \<open>layer\<close> is the optional property
  \<^verbatim>\<open>obj.layer\<close>.
\<close>

record world_object = GameObject +
  layer :: "string option"

type_synonym store = "ref \<Rightarrow> world_object"

record layer_entry =
  zIndex :: int
  layer_objects :: "ref list"

text \<open>
  \<^verbatim>\<open>this.layers\<close> is a \<^verbatim>\<open>Map\<close> from layer names to values, modelled as an association
  list in the order in which the keys were first set.  The constructor stores records
  \<^verbatim>\<open>{ zIndex, objects }\<close>; \<^verbatim>\<open>loadLevel\<close> stores the tile arrays of the level data, plain
  arrays of tile ids, under \<^verbatim>\<open>'background'\<close>, \<^verbatim>\<open>'collision'\<close> and \<^verbatim>\<open>'foreground'\<close>.  An array
  has no property \<^verbatim>\<open>objects\<close>: \<^verbatim>\<open>layer.objects.push\<close> and \<^verbatim>\<open>layer.objects.indexOf\<close> throw
  a TypeError on it.
\<close>

datatype layer_value = Layer layer_entry | TileArray "int list"

record World =
  gameObjects :: "ref list"
  toAdd :: "ref list"
  toRemove :: "ref list"
  layers :: "(string \<times> layer_value) list"
  paused :: bool
  timeScale :: real
  worldTime :: real

text \<open>\<^verbatim>\<open>Map.prototype.set\<close>: an existing key keeps its place.\<close>

fun Map_set :: "'k \<Rightarrow> 'v \<Rightarrow> ('k \<times> 'v) list \<Rightarrow> ('k \<times> 'v) list" where
  "Map_set k v [] = [(k, v)]"
| "Map_set k v ((k', v') # m) = (if k = k' then (k, v) # m else (k', v') # Map_set k v m)"

definition setupDefaultLayers :: "(string \<times> layer_value) list" where
  "setupDefaultLayers =
     [(''background'', Layer \<lparr>zIndex = - 100, layer_objects = []\<rparr>),
      (''tiles'', Layer \<lparr>zIndex = - 50, layer_objects = []\<rparr>),
      (''platforms'', Layer \<lparr>zIndex = - 10, layer_objects = []\<rparr>),
      (''entities'', Layer \<lparr>zIndex = 0, layer_objects = []\<rparr>),
      (''player'', Layer \<lparr>zIndex = 50, layer_objects = []\<rparr>),
      (''projectiles'', Layer \<lparr>zIndex = 60, layer_objects = []\<rparr>),
      (''effects'', Layer \<lparr>zIndex = 100, layer_objects = []\<rparr>),
      (''ui'', Layer \<lparr>zIndex = 1000, layer_objects = []\<rparr>)]"

text \<open>\<^verbatim>\<open>new World()\<close>.\<close>

definition World_new :: World where
  "World_new = \<lparr>gameObjects = [], toAdd = [], toRemove = [], layers = setupDefaultLayers,
                 paused = False, timeScale = 1, worldTime = 0\<rparr>"

text \<open>The three statements of \<^verbatim>\<open>loadLevel\<close> under the comment \<^verbatim>\<open>Load tile layers\<close>; the
  arguments are the three tile arrays of the level data.\<close>

definition loadLevel_tileLayers :: "int list \<Rightarrow> int list \<Rightarrow> int list \<Rightarrow> World \<Rightarrow> World" where
  "loadLevel_tileLayers backgroundTiles collisionTiles foregroundTiles w =
     w\<lparr>layers := Map_set ''foreground'' (TileArray foregroundTiles)
                   (Map_set ''collision'' (TileArray collisionTiles)
                     (Map_set ''background'' (TileArray backgroundTiles) (layers w)))\<rparr>"



text \<open>\<^verbatim>\<open>obj.layer || 'entities'\<close>: an empty string is falsy as well.  A layer that is a
  tile array is truthy, and the push on its missing \<^verbatim>\<open>objects\<close> throws.\<close>

definition addObjectToLayer :: "store \<Rightarrow> ref \<Rightarrow> World \<Rightarrow> js_error + World" where
  "addObjectToLayer h obj w =
     (let layerName = (case layer (h obj) of Some l \<Rightarrow> (if l = [] then ''entities'' else l)
                                           | None \<Rightarrow> ''entities'')
      in case map_of (layers w) layerName of
           None \<Rightarrow> Inr w
         | Some (TileArray tiles) \<Rightarrow> Inl TypeError
         | Some (Layer e) \<Rightarrow>
             Inr (w\<lparr>layers := Map_set layerName (Layer (e\<lparr>layer_objects := layer_objects e @ [obj]\<rparr>))
                                 (layers w)\<rparr>))"

text \<open>The loop of \<^verbatim>\<open>removeObjectFromLayer\<close> over the values of the map: the first layer
  that holds the object loses its first occurrence, and the loop ends there; a tile
  array met before that throws.\<close>

fun removeFromLayers ::
  "ref \<Rightarrow> (string \<times> layer_value) list \<Rightarrow> js_error + (string \<times> layer_value) list" where
  "removeFromLayers obj [] = Inr []"
| "removeFromLayers obj ((name, TileArray tiles) # ls) = Inl TypeError"
| "removeFromLayers obj ((name, Layer e) # ls) =
     (if obj \<in> set (layer_objects e)
      then Inr ((name, Layer (e\<lparr>layer_objects := remove1 obj (layer_objects e)\<rparr>)) # ls)
      else (case removeFromLayers obj ls of
              Inl err \<Rightarrow> Inl err
            | Inr ls' \<Rightarrow> Inr ((name, Layer e) # ls')))"

definition removeObjectFromLayer :: "ref \<Rightarrow> World \<Rightarrow> js_error + World" where
  "removeObjectFromLayer obj w =
     (case removeFromLayers obj (layers w) of
        Inl err \<Rightarrow> Inl err
      | Inr ls \<Rightarrow> Inr (w\<lparr>layers := ls\<rparr>))"

text \<open>A \<^verbatim>\<open>for ... of\<close> loop over an array that its body does not change, with a body that
  may throw: the error ends the loop and the function around it.  Nothing in the World
  catches it, and the state reached when it is thrown is not kept.\<close>

fun forEach :: "('s \<Rightarrow> 'a \<Rightarrow> js_error + 's) \<Rightarrow> 's \<Rightarrow> 'a list \<Rightarrow> js_error + 's" where
  "forEach body s [] = Inr s"
| "forEach body s (x # xs) = (case body s x of Inl err \<Rightarrow> Inl err | Inr s' \<Rightarrow> forEach body s' xs)"

text \<open>The bodies of the two loops of \<^verbatim>\<open>processObjectChanges\<close>.\<close>

definition addStep :: "store \<Rightarrow> World \<Rightarrow> ref \<Rightarrow> js_error + World" where
  "addStep h w obj = addObjectToLayer h obj (w\<lparr>gameObjects := gameObjects w @ [obj]\<rparr>)"

definition removeStep :: "World \<Rightarrow> ref \<Rightarrow> js_error + World" where
  "removeStep w obj =
     (if obj \<in> set (gameObjects w)
      then removeObjectFromLayer obj (w\<lparr>gameObjects := remove1 obj (gameObjects w)\<rparr>)
      else Inr w)"

definition processObjectChanges :: "store \<Rightarrow> World \<Rightarrow> js_error + World" where
  "processObjectChanges h w =
     (case forEach (addStep h) w (toAdd w) of
        Inl err \<Rightarrow> Inl err
      | Inr w1 \<Rightarrow>
          (let w2 = w1\<lparr>toAdd := []\<rparr>
           in case forEach removeStep w2 (toRemove w2) of
                Inl err \<Rightarrow> Inl err
              | Inr w3 \<Rightarrow>
                  (let w4 = w3\<lparr>toRemove := []\<rparr>
                   in Inr (w4\<lparr>gameObjects := filter (\<lambda>obj. \<not> destroyed (h obj)) (gameObjects w4)\<rparr>))))"

text \<open>
  \<^verbatim>\<open>obj.update(deltaTime)\<close> is the entities' code.  As far as the World's arrays and the
  flags are concerned, what it does is a sequence of calls of \<^verbatim>\<open>world.addObject\<close>,
  \<^verbatim>\<open>world.removeObject\<close> and \<^verbatim>\<open>destroy()\<close> on some objects; \<open>behaviour obj\<close> is that
  sequence for the update of \<open>obj\<close> in this frame.
\<close>

datatype action = AddObject ref | RemoveObject ref | Destroy ref







section \<open>Degenerate inputs: numbers with Infinity and NaN\<close>

text \<open>
  Where a divisor can be zero, the real-valued model above says nothing about the code:
  JavaScript does not fail on a division by zero, it returns \<^verbatim>\<open>Infinity\<close>, \<^verbatim>\<open>-Infinity\<close> or
  \<^verbatim>\<open>NaN\<close> and carries on.  The functions that divide without a guard are therefore
  modelled a second time over \<open>jsnum\<close>, the numbers with these three special values.
  Rounding is still not modelled, and zero has no sign: it stands for \<^verbatim>\<open>+0\<close>, which is what
  the literal \<^verbatim>\<open>0\<close> and \<^verbatim>\<open>Vector2.zero()\<close> give.
\<close>

fun js_neg :: "jsnum \<Rightarrow> jsnum" where
  "js_neg (Num a) = Num (- a)"
| "js_neg PInf = NInf"
| "js_neg NInf = PInf"
| "js_neg NaN = NaN"

fun js_add :: "jsnum \<Rightarrow> jsnum \<Rightarrow> jsnum" where
  "js_add NaN _ = NaN"
| "js_add _ NaN = NaN"
| "js_add (Num a) (Num b) = Num (a + b)"
| "js_add PInf NInf = NaN"
| "js_add NInf PInf = NaN"
| "js_add PInf _ = PInf"
| "js_add _ PInf = PInf"
| "js_add NInf _ = NInf"
| "js_add _ NInf = NInf"

definition js_sub :: "jsnum \<Rightarrow> jsnum \<Rightarrow> jsnum" where
  "js_sub a b = js_add a (js_neg b)"

text \<open>The sign of a product or quotient with an infinite operand; \<open>neg\<close> says that the
  result is negative.\<close>

definition js_inf :: "bool \<Rightarrow> jsnum" where
  "js_inf neg = (if neg then NInf else PInf)"

fun js_mul :: "jsnum \<Rightarrow> jsnum \<Rightarrow> jsnum" where
  "js_mul NaN _ = NaN"
| "js_mul _ NaN = NaN"
| "js_mul (Num a) (Num b) = Num (a * b)"
| "js_mul (Num a) PInf = (if a = 0 then NaN else js_inf (a < 0))"
| "js_mul (Num a) NInf = (if a = 0 then NaN else js_inf (0 < a))"
| "js_mul PInf (Num b) = (if b = 0 then NaN else js_inf (b < 0))"
| "js_mul NInf (Num b) = (if b = 0 then NaN else js_inf (0 < b))"
| "js_mul PInf PInf = PInf"
| "js_mul PInf NInf = NInf"
| "js_mul NInf PInf = NInf"
| "js_mul NInf NInf = PInf"

fun js_div :: "jsnum \<Rightarrow> jsnum \<Rightarrow> jsnum" where
  "js_div NaN _ = NaN"
| "js_div _ NaN = NaN"
| "js_div (Num a) (Num b) =
     (if b \<noteq> 0 then Num (a / b) else if a = 0 then NaN else js_inf (a < 0))"
| "js_div (Num a) PInf = Num 0"
| "js_div (Num a) NInf = Num 0"
| "js_div PInf (Num b) = js_inf (b < 0)"
| "js_div NInf (Num b) = js_inf (0 \<le> b)"
| "js_div PInf PInf = NaN"
| "js_div PInf NInf = NaN"
| "js_div NInf PInf = NaN"
| "js_div NInf NInf = NaN"

text \<open>The comparison \<^verbatim>\<open>>\<close>.\<close>

definition js_gt :: "jsnum \<Rightarrow> jsnum \<Rightarrow> bool" where
  "js_gt a b = js_lt b a"

text \<open>\<^verbatim>\<open>Math.abs\<close>, \<^verbatim>\<open>Math.sqrt\<close> and \<^verbatim>\<open>Math.sign\<close>.\<close>

fun js_abs :: "jsnum \<Rightarrow> jsnum" where
  "js_abs (Num a) = Num \<bar>a\<bar>"
| "js_abs PInf = PInf"
| "js_abs NInf = PInf"
| "js_abs NaN = NaN"

fun js_sqrt :: "jsnum \<Rightarrow> jsnum" where
  "js_sqrt (Num a) = (if 0 \<le> a then Num (sqrt a) else NaN)"
| "js_sqrt PInf = PInf"
| "js_sqrt NInf = NaN"
| "js_sqrt NaN = NaN"

fun js_sign :: "jsnum \<Rightarrow> jsnum" where
  "js_sign (Num a) = Num (sgn a)"
| "js_sign PInf = Num 1"
| "js_sign NInf = Num (- 1)"
| "js_sign NaN = NaN"

text \<open>A \<^verbatim>\<open>Vector2\<close> of such numbers, and the embedding of a finite one.\<close>

record JVector2 =
  jx :: jsnum
  jy :: jsnum

definition JV :: "Vector2 \<Rightarrow> JVector2" where
  "JV v = \<lparr>jx = Num (vec_x v), jy = Num (vec_y v)\<rparr>"

definition JVector2_add :: "JVector2 \<Rightarrow> JVector2 \<Rightarrow> JVector2" where
  "JVector2_add a b = \<lparr>jx = js_add (jx a) (jx b), jy = js_add (jy a) (jy b)\<rparr>"

definition JVector2_subtract :: "JVector2 \<Rightarrow> JVector2 \<Rightarrow> JVector2" where
  "JVector2_subtract a b = \<lparr>jx = js_sub (jx a) (jx b), jy = js_sub (jy a) (jy b)\<rparr>"

definition JVector2_multiply :: "JVector2 \<Rightarrow> jsnum \<Rightarrow> JVector2" where
  "JVector2_multiply a s = \<lparr>jx = js_mul (jx a) s, jy = js_mul (jy a) s\<rparr>"

definition JVector2_dot :: "JVector2 \<Rightarrow> JVector2 \<Rightarrow> jsnum" where
  "JVector2_dot a b = js_add (js_mul (jx a) (jx b)) (js_mul (jy a) (jy b))"

definition JVector2_magnitudeSquared :: "JVector2 \<Rightarrow> jsnum" where
  "JVector2_magnitudeSquared a = js_add (js_mul (jx a) (jx a)) (js_mul (jy a) (jy a))"

definition JVector2_normalize :: "JVector2 \<Rightarrow> JVector2" where
  "JVector2_normalize a =
     (let mag = js_sqrt (JVector2_magnitudeSquared a)
      in if js_gt mag (Num 0) then \<lparr>jx = js_div (jx a) mag, jy = js_div (jy a) mag\<rparr> else a)"

subsection \<open>Raycasting\<close>

record ray =
  ray_origin :: Vector2
  ray_direction :: Vector2
  ray_maxDistance :: real

record hit =
  hit_point :: JVector2
  hit_normal :: Vector2
  hit_distance :: jsnum

text \<open>\<^verbatim>\<open>raycastAABB(ray, obj)\<close>, on the bounds of the object.  The ray and the bounds are
  finite; the slab parameters need not be.\<close>

definition raycastAABB :: "ray \<Rightarrow> Bounds \<Rightarrow> hit option" where
  "raycastAABB r bounds =
     (let tMin = \<lparr>jx = js_div (Num (b_x bounds - vec_x (ray_origin r))) (Num (vec_x (ray_direction r))),
                  jy = js_div (Num (b_y bounds - vec_y (ray_origin r))) (Num (vec_y (ray_direction r)))\<rparr>;
          tMax = \<lparr>jx = js_div (Num (b_x bounds + b_width bounds - vec_x (ray_origin r)))
                           (Num (vec_x (ray_direction r))),
                  jy = js_div (Num (b_y bounds + b_height bounds - vec_y (ray_origin r)))
                           (Num (vec_y (ray_direction r)))\<rparr>;
          t1 = \<lparr>jx = js_min (jx tMin) (jx tMax), jy = js_min (jy tMin) (jy tMax)\<rparr>;
          t2 = \<lparr>jx = js_max (jx tMin) (jx tMax), jy = js_max (jy tMin) (jy tMax)\<rparr>;
          tNear = js_max (jx t1) (jy t1);
          tFar = js_min (jx t2) (jy t2)
      in if js_gt tNear tFar \<or> js_lt tFar (Num 0) \<or> js_gt tNear (Num (ray_maxDistance r)) then None
         else
           let dist = (if js_gt tNear (Num 0) then tNear else tFar);
               pt = JVector2_add (JV (ray_origin r)) (JVector2_multiply (JV (ray_direction r)) dist);
               nrm = (if js_lt (js_abs (js_sub tNear (jx t1))) (Num 0.001)
                      then \<lparr>vec_x = (if vec_x (ray_direction r) > 0 then - 1 else 1), vec_y = 0\<rparr>
                      else \<lparr>vec_x = 0, vec_y = (if vec_y (ray_direction r) > 0 then - 1 else 1)\<rparr>)
           in Some \<lparr>hit_point = pt, hit_normal = nrm, hit_distance = dist\<rparr>)"

definition objectMatchesLayerMask :: "'a GameObject_scheme \<Rightarrow> string list \<Rightarrow> bool" where
  "objectMatchesLayerMask obj layerMask =
     list_ex (\<lambda>l. l \<in> set layerMask) (orDefault (collisionLayers obj))"

text \<open>\<^verbatim>\<open>hits.sort((a, b) => a.distance - b.distance)\<close>, as a stable insertion sort.\<close>

fun insertHit :: "ref \<times> hit \<Rightarrow> (ref \<times> hit) list \<Rightarrow> (ref \<times> hit) list" where
  "insertHit h [] = [h]"
| "insertHit h (x # xs) =
     (if js_lt (hit_distance (snd h)) (hit_distance (snd x)) then h # x # xs else x # insertHit h xs)"

text \<open>
  \<^verbatim>\<open>raycast(origin, direction, maxDistance, layerMask)\<close>: the hits with the object hit, or
  the error thrown by \<^verbatim>\<open>getObjectsInRay\<close>.
\<close>

definition raycast ::
  "'a GameObject_scheme list \<Rightarrow> Vector2 \<Rightarrow> Vector2 \<Rightarrow> real \<Rightarrow> string list option
   \<Rightarrow> js_error + (ref \<times> hit) list" where
  "raycast objects orig dir maxDist layerMask =
     (let r = \<lparr>ray_origin = orig, ray_direction = Vector2_normalized dir, ray_maxDistance = maxDist\<rparr>
      in case getObjectsInRay maxDist of
           Inl e \<Rightarrow> Inl e
         | Inr potentialObjects \<Rightarrow>
             Inr (foldl (\<lambda>hits h. insertHit h hits) []
                    (concat (map (\<lambda>obj.
                       if (case layerMask of Some m \<Rightarrow> \<not> objectMatchesLayerMask (objects ! obj) m
                                           | None \<Rightarrow> False)
                       then []
                       else (case raycastAABB r (getBounds (objects ! obj)) of
                               Some h \<Rightarrow> [(obj, h)] | None \<Rightarrow> []))
                     potentialObjects))))"

subsection \<open>Collision resolution with Infinity and NaN\<close>

text \<open>
  \<^verbatim>\<open>positionalCorrection\<close>, \<^verbatim>\<open>resolveVelocity\<close> and \<^verbatim>\<open>applyFriction\<close> once more.  The
  objects and the collision record are finite; the results are the new positions, or the
  new velocities, of A and B.
\<close>

definition positionalCorrection_ieee ::
  "'a GameObject_scheme \<Rightarrow> 'a GameObject_scheme \<Rightarrow> collision_info \<Rightarrow> JVector2 \<times> JVector2" where
  "positionalCorrection_ieee objA objB c =
     (let correction = JVector2_multiply (JV (normal c)) (Num (penetration c * 0.8));
          totalMass = Num (mass objA + mass objB);
          ratioA = js_div (Num (mass objB)) totalMass;
          ratioB = js_div (Num (mass objA)) totalMass
      in if solid objA \<and> solid objB then
           (JVector2_subtract (JV (position objA)) (JVector2_multiply correction ratioA),
            JVector2_add (JV (position objB)) (JVector2_multiply correction ratioB))
         else if solid objA then
           (JV (position objA), JVector2_add (JV (position objB)) correction)
         else if solid objB then
           (JVector2_subtract (JV (position objA)) correction, JV (position objB))
         else (JV (position objA), JV (position objB)))"

definition applyFriction_ieee ::
  "'a GameObject_scheme \<Rightarrow> 'a GameObject_scheme \<Rightarrow> JVector2 \<Rightarrow> JVector2 \<Rightarrow> collision_info
   \<Rightarrow> jsnum \<Rightarrow> JVector2 \<times> JVector2" where
  "applyFriction_ieee objA objB velA velB c normalImpulse =
     (let relativeVelocity = JVector2_subtract velB velA;
          tangent0 = JVector2_subtract relativeVelocity
                       (JVector2_multiply (JV (normal c)) (JVector2_dot relativeVelocity (JV (normal c))))
      in if js_lt (JVector2_magnitudeSquared tangent0) (Num 0.001) then (velA, velB)
         else
           let tangent = JVector2_normalize tangent0;
               frictionCoefficient = js_sqrt (Num (friction objA * friction objB));
               frictionImpulse = js_div (js_neg (JVector2_dot relativeVelocity tangent))
                                   (js_add (js_div (Num 1) (Num (mass objA)))
                                           (js_div (Num 1) (Num (mass objB))));
               frictionMagnitude = js_mul (js_abs normalImpulse) frictionCoefficient;
               fr = (if js_lt (js_abs frictionImpulse) frictionMagnitude
                     then JVector2_multiply tangent frictionImpulse
                     else JVector2_multiply tangent
                            (js_mul (js_neg frictionMagnitude) (js_sign frictionImpulse)));
               velA1 = (if solid objA \<and> \<not> hasTag objA ''static''
                        then JVector2_subtract velA
                               (JVector2_multiply fr (js_div (Num 1) (Num (mass objA))))
                        else velA);
               velB1 = (if solid objB \<and> \<not> hasTag objB ''static''
                        then JVector2_add velB
                               (JVector2_multiply fr (js_div (Num 1) (Num (mass objB))))
                        else velB)
           in (velA1, velB1))"

definition resolveVelocity_ieee ::
  "'a GameObject_scheme \<Rightarrow> 'a GameObject_scheme \<Rightarrow> collision_info \<Rightarrow> JVector2 \<times> JVector2" where
  "resolveVelocity_ieee objA objB c =
     (let relativeVelocity = Vector2_subtract (velocity objB) (velocity objA);
          velocityAlongNormal = Vector2_dot relativeVelocity (normal c)
      in if velocityAlongNormal > 0 then (JV (velocity objA), JV (velocity objB))
         else
           let restitution = min (bounciness objA) (bounciness objB);
               impulseScalar = js_div (Num (- (1 + restitution) * velocityAlongNormal))
                                 (js_add (js_div (Num 1) (Num (mass objA)))
                                         (js_div (Num 1) (Num (mass objB))));
               impulse = JVector2_multiply (JV (normal c)) impulseScalar;
               velA1 = (if solid objA \<and> \<not> hasTag objA ''static''
                        then JVector2_subtract (JV (velocity objA))
                               (JVector2_multiply impulse (js_div (Num 1) (Num (mass objA))))
                        else JV (velocity objA));
               velB1 = (if solid objB \<and> \<not> hasTag objB ''static''
                        then JVector2_add (JV (velocity objB))
                               (JVector2_multiply impulse (js_div (Num 1) (Num (mass objB))))
                        else JV (velocity objB))
           in applyFriction_ieee objA objB velA1 velB1 c impulseScalar)"


section \<open>Notions used in the statements\<close>

text \<open>The unordered pair of a pair of references.\<close>

definition unordered :: "'r \<times> 'r \<Rightarrow> 'r set" where
  "unordered p = {fst p, snd p}"

text \<open>The references held in a grid, and the array stored under a key
  (empty when the key is absent).\<close>

definition grid_refs :: "'r grid \<Rightarrow> 'r set" where
  "grid_refs g = (\<Union>cell \<in> set g. set (snd cell))"

definition cell_of :: "'r grid \<Rightarrow> cell_key \<Rightarrow> 'r list" where
  "cell_of g k = (case map_of g k of Some rs \<Rightarrow> rs | None \<Rightarrow> [])"

text \<open>\<^verbatim>\<open>addObjects\<close> puts object \<open>r\<close> under key \<open>k\<close>: the object is active and not
  destroyed, and \<open>k\<close> is one of the cells of its bounds.\<close>

definition inserted :: "real \<Rightarrow> 'a GameObject_scheme list \<Rightarrow> ref \<Rightarrow> cell_key \<Rightarrow> bool" where
  "inserted cs objects r k \<longleftrightarrow>
     active (objects ! r) \<and> \<not> destroyed (objects ! r)
     \<and> k \<in> set (getCellsForBounds cs (getBounds (objects ! r)))"

text \<open>Three boxes of side 32 on a row: the first two share the cell (0, 0), the last
  two the cell (1, 0).\<close>

definition example_row :: "GameObject list" where
  "example_row = [GameObject_new 5 0 0 32 32, GameObject_new 6 48 0 32 32, GameObject_new 7 70 0 32 32]"

text \<open>Three enemies of side 32 at x = 0, 8 and 16, as their constructor leaves them
  (ids 5, 6 and 7 from the counter), and after \<^verbatim>\<open>World.createEntityFromData\<close> has assigned
  them the ids \<^verbatim>\<open>'enemy_1'\<close>, \<^verbatim>\<open>'enemy_2'\<close> and \<^verbatim>\<open>'enemy_3'\<close> of the level data, none of
  which reads as a number.  (The properties object that \<^verbatim>\<open>createEntityFromData\<close> passes
  for the enemy type matches no case of \<^verbatim>\<open>setupEnemyType\<close>, which leaves the defaults.)\<close>

definition example_counter_enemies :: "Enemy list" where
  "example_counter_enemies = [Enemy_new 5 0 0, Enemy_new 6 8 0, Enemy_new 7 16 0]"

definition example_level_enemies :: "Enemy list" where
  "example_level_enemies = map (\<lambda>enemy. enemy\<lparr>obj_id := NaN\<rparr>) example_counter_enemies"

text \<open>A box that ignores gravity and drifts with velocity (3, 4).\<close>

definition example_floater :: GameObject where
  "example_floater = (GameObject_new 5 0 0 32 32)\<lparr>gravityScale := 0, velocity := \<lparr>vec_x = 3, vec_y = 4\<rparr>\<rparr>"

text \<open>An object after \<open>t\<close> seconds of \<^verbatim>\<open>integratePosition\<close> at constant velocity.\<close>

definition moved :: "real \<Rightarrow> 'a GameObject_scheme \<Rightarrow> 'a GameObject_scheme" where
  "moved t obj =
     (if active obj \<and> \<not> destroyed obj
      then obj\<lparr>position := Vector2_add (position obj) (Vector2_multiply (velocity obj) t)\<rparr>
      else obj)"

text \<open>The part of an object that only gravity and \<^verbatim>\<open>integrateVelocity\<close> write: its gravity
  scale and its accumulated acceleration.\<close>

definition inertia :: "'a GameObject_scheme \<Rightarrow> real \<times> Vector2" where
  "inertia obj = (gravityScale obj, acceleration obj)"

text \<open>The flags that decide which callbacks collision resolution calls, and the calls
  that \<^verbatim>\<open>resolveCollision\<close> makes for a record, read off the flags of its two objects.\<close>

definition callback_flags :: "'a GameObject_scheme \<Rightarrow> bool \<times> bool \<times> bool \<times> bool" where
  "callback_flags obj = (isTrigger obj, solid obj, has_onTriggerEnter obj, has_onCollision obj)"

definition pair_callbacks :: "'a GameObject_scheme list \<Rightarrow> collision_pair \<Rightarrow> event list" where
  "pair_callbacks objects pair =
     (if isTrigger (objects ! objectA pair) \<or> isTrigger (objects ! objectB pair)
      then handleTriggerCollision objects (objectA pair) (objectB pair)
      else if \<not> solid (objects ! objectA pair) \<and> \<not> solid (objects ! objectB pair) then []
      else handleCollisionCallbacks objects (objectA pair) (objectB pair))"

text \<open>Two solid boxes of side 10 and mass 1 that overlap by 2 along x (and by 10 along
  y), A on the left.\<close>

definition example_overlap :: "GameObject list" where
  "example_overlap = [GameObject_new 5 0 0 10 10, GameObject_new 6 8 0 10 10]"

text \<open>A resting trigger with an \<^verbatim>\<open>onTriggerEnter\<close> callback that overlaps a resting solid
  box; neither is subject to gravity.\<close>

definition example_trigger :: "GameObject list" where
  "example_trigger =
     [(GameObject_new 5 0 0 32 32)\<lparr>solid := False, isTrigger := True, gravityScale := 0,
                                    has_onTriggerEnter := True\<rparr>,
      (GameObject_new 6 16 0 32 32)\<lparr>gravityScale := 0\<rparr>]"

text \<open>The objects passed to \<^verbatim>\<open>addObject\<close> in a sequence of calls, in order.\<close>

fun added :: "action list \<Rightarrow> ref list" where
  "added [] = []"
| "added (AddObject r # as) = r # added as"
| "added (a # as) = added as"




text \<open>The ray that \<^verbatim>\<open>raycast\<close> builds from a zero direction vector, starting at (5, 5),
  with range 10.\<close>

definition example_inside_ray :: ray where
  "example_inside_ray =
     \<lparr>ray_origin = \<lparr>vec_x = 5, vec_y = 5\<rparr>,
      ray_direction = Vector2_normalized \<lparr>vec_x = 0, vec_y = 0\<rparr>, ray_maxDistance = 10\<rparr>"


section \<open>Properties of the entities\<close>

subsection \<open>Facts about freshly constructed entities\<close>

lemma Player_new_simps:
  "health (Player_new i x y) = 100" "maxHealth (Player_new i x y) = 100"
  "lives (Player_new i x y) = 3" "invulnerabilityTime (Player_new i x y) = 0"
  "invulnerabilityDuration (Player_new i x y) = 1"
  "abilities (Player_new i x y) = setupDefaultAbilities"
  "position (Player_new i x y) = \<lparr>vec_x = x, vec_y = y\<rparr>"
  "velocity (Player_new i x y) = \<lparr>vec_x = 0, vec_y = 0\<rparr>"
  "mass (Player_new i x y) = 1"
  "obj_size (Player_new i x y) = \<lparr>vec_x = 24, vec_y = 32\<rparr>"
  "collisionBounds (Player_new i x y) = None"
  by (simp_all add: Player_new_def GameObject.extend_def Player.fields_def GameObject_new_def)

lemma shield_default:
  "setupDefaultAbilities ''shield'' =
     Some \<lparr>enabled = False, level = 0, cooldown = 0, maxCooldown = 0, ab_active = False\<rparr>"
  by (simp add: setupDefaultAbilities_def addAbility_def)

lemma Player_new_not_shielded: "\<not> shieldBlocks (Player_new i x y)"
  by (simp add: shieldBlocks_def hasAbility_def Player_new_simps shield_default)

lemma Enemy_new_simps:
  "position (Enemy_new i x y) = \<lparr>vec_x = x, vec_y = y\<rparr>"
  "startPosition (Enemy_new i x y) = \<lparr>vec_x = x, vec_y = y\<rparr>"
  "patrolDistance (Enemy_new i x y) = 100" "speed (Enemy_new i x y) = 100"
  "direction (Enemy_new i x y) = 1" "stateTimer (Enemy_new i x y) = 0"
  "aiState (Enemy_new i x y) = patrol"
  "velocity (Enemy_new i x y) = \<lparr>vec_x = 0, vec_y = 0\<rparr>"
  by (simp_all add: Enemy_new_def GameObject.extend_def Enemy.fields_def GameObject_new_def)

lemma sqrt_2500: "sqrt 2500 = 50"
  by (rule real_sqrt_unique) simp_all

subsection \<open>Player.takeDamage\<close>

text \<open>
  The knockback impulse of \<^verbatim>\<open>takeDamage\<close> points away from the source: the velocity
  change \<open>200 * normalized d / m\<close>, for \<open>d\<close> the vector from the source's centre to the
  player's, has a non-negative component along \<open>d\<close> when the mass \<open>m\<close> is positive.
\<close>

lemma knockback_away:
  assumes "0 < m"
  shows "0 \<le> Vector2_dot (Vector2_divide (Vector2_multiply (Vector2_normalized d) 200) m) d"
proof -
  let ?s = "vec_x d * vec_x d + vec_y d * vec_y d"
  have s: "0 \<le> ?s" by simp
  have "Vector2_dot (Vector2_divide (Vector2_multiply (Vector2_normalized d) 200) m) d
        = (if sqrt ?s = 0 then 0 else 200 * ?s / sqrt ?s / m)"
    by (simp add: Vector2_dot_def Vector2_divide_def Vector2_multiply_def
        Vector2_normalized_def Vector2_magnitude_def Let_def Vector2_zero_def field_simps)
      (simp add: add_divide_distrib)
  moreover have "0 \<le> 200 * ?s / sqrt ?s / m"
    using s assms by simp
  ultimately show ?thesis by simp
qed

text \<open>
  C8, as stated: whenever the call is not blocked, health has decreased by the amount
  when it returns.  A lethal hit on a fresh player (health 100, three lives) is not
  blocked and returns true, but \<^verbatim>\<open>die\<close> and \<^verbatim>\<open>respawn\<close> run inside the call and health
  is back at 100, not 0.
\<close>

theorem takeDamage_lethal_counterexample:
  "\<not> (0 < invulnerabilityTime (Player_new 5 0 0)) \<and> \<not> shieldBlocks (Player_new 5 0 0)
   \<and> fst (takeDamage 100 (None :: GameObject option) None (Player_new 5 0 0)) = True
   \<and> health (fst (snd (takeDamage 100 (None :: GameObject option) None (Player_new 5 0 0))))
       \<noteq> health (Player_new 5 0 0) - 100"
  by (simp add: takeDamage_def Player_new_simps hasAbility_def shieldBlocks_def shield_default
      die_def respawn_def Let_def)

text \<open>
  C8, amended.  While the invulnerability timer is positive or the shield blocks,
  \<^verbatim>\<open>takeDamage\<close> returns false and leaves the whole player unchanged.  Otherwise it
  returns true, and
  \<^item> if the remaining health is positive: health has decreased by the amount,
    \<open>invulnerabilityTime\<close> is \<open>invulnerabilityDuration\<close>, and velocity has gained
    \<open>200 / mass\<close> times the unit vector from the source's centre to the player's (nothing
    when no source is given; the mass is not zero when one is);
  \<^item> if the remaining health is not positive and more than one life is left: a life is
    lost and \<^verbatim>\<open>respawn\<close> puts health back to \<open>maxHealth\<close>, zeroes the velocity and sets
    the invulnerability timer to twice the duration;
  \<^item> if the remaining health is not positive and no further life is left: a life is
    lost, health stays decreased by the amount and game over is requested.
\<close>

theorem takeDamage_blocked_or_applied:
  "(0 < invulnerabilityTime p \<or> shieldBlocks p \<longrightarrow>
      takeDamage amount source cp p = (False, p, []))
   \<and> (\<not> 0 < invulnerabilityTime p \<and> \<not> shieldBlocks p \<longrightarrow>
        fst (takeDamage amount source cp p) = True)
   \<and> (\<not> 0 < invulnerabilityTime p \<and> \<not> shieldBlocks p \<and> 0 < health p - amount
        \<and> (source = None \<or> mass p \<noteq> 0) \<longrightarrow>
        snd (takeDamage amount source cp p) =
          (p\<lparr>health := health p - amount, invulnerabilityTime := invulnerabilityDuration p,
             velocity := (case source of None \<Rightarrow> velocity p
                | Some s \<Rightarrow> Vector2_add (velocity p)
                    (Vector2_divide (Vector2_multiply
                       (Vector2_normalized (Vector2_subtract (getCenter p) (getCenter s))) 200)
                       (mass p)))\<rparr>,
           [PlaySound ''hurt'']))
   \<and> (\<not> 0 < invulnerabilityTime p \<and> \<not> shieldBlocks p \<and> health p - amount \<le> 0 \<and> 1 < lives p \<longrightarrow>
        (let p' = fst (snd (takeDamage amount source cp p))
         in health p' = maxHealth p \<and> lives p' = lives p - 1
            \<and> velocity p' = \<lparr>vec_x = 0, vec_y = 0\<rparr>
            \<and> invulnerabilityTime p' = invulnerabilityDuration p * 2))
   \<and> (\<not> 0 < invulnerabilityTime p \<and> \<not> shieldBlocks p \<and> health p - amount \<le> 0 \<and> lives p \<le> 1 \<longrightarrow>
        (let p' = fst (snd (takeDamage amount source cp p))
         in health p' = health p - amount \<and> lives p' = lives p - 1
            \<and> invulnerabilityTime p' = invulnerabilityDuration p
            \<and> GameOver \<in> set (snd (snd (takeDamage amount source cp p)))))"
  by (auto simp: takeDamage_def Let_def addImpulse_def getCenter_def
        getBounds_def die_def respawn_def split: option.splits)

theorem takeDamage_blocked_or_applied_witness:
  "takeDamage 30 (None :: GameObject option) None ((Player_new 5 0 0)\<lparr>invulnerabilityTime := 0.5\<rparr>)
     = (False, (Player_new 5 0 0)\<lparr>invulnerabilityTime := 0.5\<rparr>, [])
   \<and> fst (takeDamage 30 (Some (GameObject_new 6 50 0 24 32)) None (Player_new 5 0 0)) = True
   \<and> snd (takeDamage 30 (Some (GameObject_new 6 50 0 24 32)) None (Player_new 5 0 0))
       = ((Player_new 5 0 0)\<lparr>health := 70, invulnerabilityTime := 1,
            velocity := \<lparr>vec_x = - 200, vec_y = 0\<rparr>\<rparr>, [PlaySound ''hurt''])
   \<and> health (fst (snd (takeDamage 100 (None :: GameObject option) None (Player_new 5 0 0)))) = 100
   \<and> GameOver \<in> set (snd (snd (takeDamage 100 (None :: GameObject option) None
        ((Player_new 5 0 0)\<lparr>lives := 1\<rparr>))))"
proof -
  have c: "getCenter (Player_new 5 0 0) = \<lparr>vec_x = 12, vec_y = 16\<rparr>"
          "getCenter (GameObject_new 6 50 0 24 32) = \<lparr>vec_x = 62, vec_y = 16\<rparr>"
    by (simp_all add: getCenter_def getBounds_def Player_new_simps GameObject_new_def)
  have n: "Vector2_normalized (Vector2_subtract \<lparr>vec_x = 12, vec_y = 16\<rparr> \<lparr>vec_x = 62, vec_y = 16\<rparr>)
           = \<lparr>vec_x = - 1, vec_y = 0\<rparr>"
    by (simp add: Vector2_normalized_def Vector2_subtract_def Vector2_magnitude_def sqrt_2500)
  show ?thesis
    using takeDamage_blocked_or_applied [of "(Player_new 5 0 0)\<lparr>invulnerabilityTime := 0.5\<rparr>" 30 "None :: GameObject option" None]
      takeDamage_blocked_or_applied [of "Player_new 5 0 0" 30 "Some (GameObject_new 6 50 0 24 32)" None]
      takeDamage_blocked_or_applied [of "Player_new 5 0 0" 100 "None :: GameObject option" None]
      takeDamage_blocked_or_applied [of "(Player_new 5 0 0)\<lparr>lives := 1\<rparr>" 100 "None :: GameObject option" None]
    by (simp add: Player_new_simps Player_new_not_shielded shieldBlocks_def hasAbility_def
        shield_default c n Vector2_add_def Vector2_divide_def Vector2_multiply_def Let_def)
qed

subsection \<open>Player.heal\<close>

text \<open>
  C10.  \<^verbatim>\<open>heal\<close> sets health to \<open>min maxHealth (health + amount)\<close> and leaves maxHealth
  alone; so health is at most maxHealth afterwards, and healing a player at full health
  by a non-negative amount leaves the whole player state unchanged.
\<close>

theorem heal_min_maxHealth:
  "health (fst (heal amount p)) = min (maxHealth p) (health p + amount)
   \<and> maxHealth (fst (heal amount p)) = maxHealth p
   \<and> health (fst (heal amount p)) \<le> maxHealth (fst (heal amount p))
   \<and> (0 \<le> amount \<and> health p = maxHealth p \<longrightarrow> fst (heal amount p) = p)"
  by (simp add: heal_def)

theorem heal_min_maxHealth_witness:
  "(0::real) \<le> 25 \<and> health (Player_new 5 0 0) = maxHealth (Player_new 5 0 0)
   \<and> fst (heal 25 (Player_new 5 0 0)) = Player_new 5 0 0"
  using heal_min_maxHealth [of 25 "Player_new 5 0 0"]
  by (simp add: Player_new_simps)

subsection \<open>Enemy.updatePatrol\<close>

text \<open>
  C9, as stated: the patrol direction reverses only once the horizontal distance from
  the start has reached \<open>patrolDistance\<close>.  An enemy standing on its start position
  (distance 0, \<open>patrolDistance = 100\<close>) whose state timer has passed three seconds
  reverses all the same: its direction goes from 1 to -1 and its horizontal velocity is
  set to -50.
\<close>

theorem updatePatrol_timeout_counterexample:
  "patrolDistance ((Enemy_new 5 0 0)\<lparr>stateTimer := 3.5\<rparr>) = 100
   \<and> \<bar>vec_x (position ((Enemy_new 5 0 0)\<lparr>stateTimer := 3.5\<rparr>))
        - vec_x (startPosition ((Enemy_new 5 0 0)\<lparr>stateTimer := 3.5\<rparr>))\<bar> = 0
   \<and> direction ((Enemy_new 5 0 0)\<lparr>stateTimer := 3.5\<rparr>) = 1
   \<and> direction (updatePatrol (1/60) ((Enemy_new 5 0 0)\<lparr>stateTimer := 3.5\<rparr>)) = - 1
   \<and> vec_x (velocity (updatePatrol (1/60) ((Enemy_new 5 0 0)\<lparr>stateTimer := 3.5\<rparr>))) = - 50"
  by (simp add: updatePatrol_def Let_def Enemy_new_simps)

text \<open>
  C9, amended.  \<^verbatim>\<open>updatePatrol\<close> reverses the patrol direction exactly when the
  horizontal distance from \<open>startPosition\<close> is at least \<open>patrolDistance\<close> or the state
  timer exceeds three seconds (resetting the timer when it does), and sets the horizontal
  velocity to direction times half the speed; it does not move the enemy.
\<close>

theorem updatePatrol_reverses_iff:
  "direction (updatePatrol dt e) =
     (if patrolDistance e \<le> \<bar>vec_x (position e) - vec_x (startPosition e)\<bar> \<or> 3 < stateTimer e
      then - direction e else direction e)
   \<and> stateTimer (updatePatrol dt e) =
     (if patrolDistance e \<le> \<bar>vec_x (position e) - vec_x (startPosition e)\<bar> \<or> 3 < stateTimer e
      then 0 else stateTimer e)
   \<and> vec_x (velocity (updatePatrol dt e)) = direction (updatePatrol dt e) * speed e * 0.5
   \<and> position (updatePatrol dt e) = position e"
  by (simp add: updatePatrol_def Let_def)

theorem updatePatrol_reverses_iff_witness:
  "direction (updatePatrol (1/60) ((Enemy_new 5 0 0)\<lparr>position := \<lparr>vec_x = 100, vec_y = 0\<rparr>\<rparr>)) = - 1
   \<and> direction (updatePatrol (1/60) ((Enemy_new 5 0 0)\<lparr>position := \<lparr>vec_x = 99, vec_y = 0\<rparr>\<rparr>)) = 1
   \<and> vec_x (velocity (updatePatrol (1/60) ((Enemy_new 5 0 0)\<lparr>position := \<lparr>vec_x = 100, vec_y = 0\<rparr>\<rparr>))) = - 50"
  using updatePatrol_reverses_iff [of "1/60" "(Enemy_new 5 0 0)\<lparr>position := \<lparr>vec_x = 100, vec_y = 0\<rparr>\<rparr>"]
    updatePatrol_reverses_iff [of "1/60" "(Enemy_new 5 0 0)\<lparr>position := \<lparr>vec_x = 99, vec_y = 0\<rparr>\<rparr>"]
  by (simp add: Enemy_new_simps)


section \<open>Properties of the spatial grid\<close>

lemma GameObject_new_simps:
  "obj_id (GameObject_new i x y w h) = Num (real i)"
  "position (GameObject_new i x y w h) = \<lparr>vec_x = x, vec_y = y\<rparr>"
  "velocity (GameObject_new i x y w h) = \<lparr>vec_x = 0, vec_y = 0\<rparr>"
  "acceleration (GameObject_new i x y w h) = \<lparr>vec_x = 0, vec_y = 0\<rparr>"
  "obj_size (GameObject_new i x y w h) = \<lparr>vec_x = w, vec_y = h\<rparr>"
  "mass (GameObject_new i x y w h) = 1" "friction (GameObject_new i x y w h) = 0.8"
  "bounciness (GameObject_new i x y w h) = 0" "gravityScale (GameObject_new i x y w h) = 1"
  "active (GameObject_new i x y w h)" "solid (GameObject_new i x y w h)"
  "\<not> destroyed (GameObject_new i x y w h)" "collisionBounds (GameObject_new i x y w h) = None"
  "collisionLayers (GameObject_new i x y w h) = Some [''default'']"
  "collisionMask (GameObject_new i x y w h) = Some [''default'']"
  "\<not> isTrigger (GameObject_new i x y w h)" "tags (GameObject_new i x y w h) = {}"
  "\<not> has_onCollision (GameObject_new i x y w h)" "\<not> has_onTriggerEnter (GameObject_new i x y w h)"
  by (simp_all add: GameObject_new_def)

subsection \<open>References held by the grid and by the pairs\<close>

lemma grid_refs_Nil [simp]: "grid_refs [] = {}"
  by (simp add: grid_refs_def)

lemma grid_refs_Cons [simp]: "grid_refs ((k, rs) # g) = set rs \<union> grid_refs g"
  by (simp add: grid_refs_def)

lemma grid_refs_push: "grid_refs (grid_push k r g) = insert r (grid_refs g)"
  by (induction k r g rule: grid_push.induct) auto

lemma grid_refs_addObject: "grid_refs (SpatialGrid_addObject cells r g) \<subseteq> insert r (grid_refs g)"
  unfolding SpatialGrid_addObject_def
proof (induction cells arbitrary: g)
  case Nil then show ?case by auto
next
  case (Cons c cells)
  have "grid_refs (foldl (\<lambda>g' cellKey. grid_push cellKey r g') (grid_push c r g) cells)
        \<subseteq> insert r (grid_refs (grid_push c r g))"
    by (rule Cons.IH)
  then show ?case by (simp add: grid_refs_push)
qed

lemma set_cellPairs: "set (cellPairs xs) \<subseteq> set xs \<times> set xs"
  by (induction xs) auto

lemma emitPair_foldl_subset: "set (fst (foldl (emitPair idOf) st ps)) \<subseteq> set (fst st) \<union> set ps"
proof (induction ps arbitrary: st)
  case Nil then show ?case by simp
next
  case (Cons p ps)
  have "set (fst (foldl (emitPair idOf) (emitPair idOf st p) ps))
        \<subseteq> set (fst (emitPair idOf st p)) \<union> set ps"
    by (rule Cons.IH)
  moreover have "set (fst (emitPair idOf st p)) \<subseteq> set (fst st) \<union> {p}"
    by (auto simp: emitPair_def)
  ultimately show ?case by auto
qed

lemma pairs_subset_refs:
  "set (getPotentialCollisionPairs idOf g) \<subseteq> grid_refs g \<times> grid_refs g"
proof -
  have "set (concat (map (\<lambda>cell. cellPairs (snd cell)) g)) \<subseteq> grid_refs g \<times> grid_refs g"
    using set_cellPairs by (fastforce simp: grid_refs_def)
  then show ?thesis
    unfolding getPotentialCollisionPairs_def
    using emitPair_foldl_subset [of idOf "([], {})"] by fastforce
qed

subsection \<open>The invariant of the deduplication loop\<close>

text \<open>The set \<^verbatim>\<open>checked\<close> holds exactly the keys of the pairs emitted so far, these keys
  are pairwise different, and in the end every key met has been recorded.\<close>

lemma emitPair_foldl_inv:
  assumes "snd st = pairKey idOf ` set (fst st)" "distinct (map (pairKey idOf) (fst st))"
  shows "snd (foldl (emitPair idOf) st ps) = pairKey idOf ` set (fst (foldl (emitPair idOf) st ps))
         \<and> distinct (map (pairKey idOf) (fst (foldl (emitPair idOf) st ps)))
         \<and> snd (foldl (emitPair idOf) st ps) = snd st \<union> pairKey idOf ` set ps"
  using assms
proof (induction ps arbitrary: st)
  case Nil then show ?case by simp
next
  case (Cons p ps)
  define st' where "st' = emitPair idOf st p"
  define F where "F = foldl (emitPair idOf) st' ps"
  have 1: "snd st' = pairKey idOf ` set (fst st')"
    unfolding st'_def using Cons.prems(1) by (cases "pairKey idOf p \<in> snd st") (simp_all add: emitPair_def)
  have 2: "distinct (map (pairKey idOf) (fst st'))"
    unfolding st'_def using Cons.prems by (cases "pairKey idOf p \<in> snd st") (simp_all add: emitPair_def)
  have 3: "snd st' = insert (pairKey idOf p) (snd st)"
    unfolding st'_def by (cases "pairKey idOf p \<in> snd st") (simp_all add: emitPair_def insert_absorb)
  have IH: "snd F = pairKey idOf ` set (fst F) \<and> distinct (map (pairKey idOf) (fst F))
            \<and> snd F = snd st' \<union> pairKey idOf ` set ps"
    unfolding F_def using 1 2 by (rule Cons.IH)
  have F: "foldl (emitPair idOf) st (p # ps) = F"
    by (simp add: F_def st'_def)
  have c: "snd F = snd st' \<union> pairKey idOf ` set ps"
    using IH by (elim conjE)
  have "snd F = snd st \<union> pairKey idOf ` set (p # ps)"
    by (simp add: c 3)
  with IH show ?case unfolding F by (elim conjE) (intro conjI)
qed

lemma pairs_distinct_keys: "distinct (map (pairKey idOf) (getPotentialCollisionPairs idOf g))"
  unfolding getPotentialCollisionPairs_def
  by (rule emitPair_foldl_inv [THEN conjunct2, THEN conjunct1]) simp_all

lemma pairs_keys_complete:
  "pairKey idOf ` set (getPotentialCollisionPairs idOf g)
     = pairKey idOf ` set (concat (map (\<lambda>cell. cellPairs (snd cell)) g))"
proof -
  define ps where "ps = concat (map (\<lambda>cell. cellPairs (snd cell)) g)"
  define F where "F = foldl (emitPair idOf) ([], {}) ps"
  have inv: "snd F = pairKey idOf ` set (fst F) \<and> distinct (map (pairKey idOf) (fst F))
             \<and> snd F = snd (([], {}) :: ('a \<times> 'a) list \<times> (jsnum \<times> jsnum) set) \<union> pairKey idOf ` set ps"
    unfolding F_def by (rule emitPair_foldl_inv) simp_all
  from inv have a: "snd F = pairKey idOf ` set (fst F)" by (elim conjE)
  from inv have "snd F = snd (([], {}) :: ('a \<times> 'a) list \<times> (jsnum \<times> jsnum) set) \<union> pairKey idOf ` set ps"
    by (elim conjE)
  then have b: "snd F = pairKey idOf ` set ps" by simp
  from a [symmetric] b have "pairKey idOf ` set (fst F) = pairKey idOf ` set ps" by (rule trans)
  then show ?thesis by (simp only: getPotentialCollisionPairs_def F_def ps_def)
qed

lemma cellPairs_complete:
  "a \<in> set xs \<Longrightarrow> b \<in> set xs \<Longrightarrow> a \<noteq> b \<Longrightarrow> (a, b) \<in> set (cellPairs xs) \<or> (b, a) \<in> set (cellPairs xs)"
  by (induction xs) auto

lemma js_min_max_commute: "js_min a b = js_min b a" "js_max a b = js_max b a"
  by (cases a; cases b; auto simp: js_min_def js_max_def)+

lemma pairKey_unordered: "unordered p = unordered q \<Longrightarrow> pairKey idOf p = pairKey idOf q"
proof -
  assume "unordered p = unordered q"
  then have "(fst p = fst q \<and> snd p = snd q) \<or> (fst p = snd q \<and> snd p = fst q)"
    by (simp add: unordered_def doubleton_eq_iff)
  then show ?thesis
    using js_min_max_commute [of "idOf (fst q)" "idOf (snd q)"] by (auto simp: pairKey_def)
qed

lemma pairs_distinct_unordered: "distinct (map unordered (getPotentialCollisionPairs idOf g))"
proof -
  let ?pairs = "getPotentialCollisionPairs idOf g"
  have k: "distinct ?pairs" "inj_on (pairKey idOf) (set ?pairs)"
    using pairs_distinct_keys [of idOf g] by (simp_all add: distinct_map)
  have "inj_on unordered (set ?pairs)"
  proof (rule inj_onI)
    fix p q assume p: "p \<in> set ?pairs" and q: "q \<in> set ?pairs"
      and u: "unordered p = unordered q"
    from u have "pairKey idOf p = pairKey idOf q" by (rule pairKey_unordered)
    with k(2) p q show "p = q" by (auto dest: inj_onD)
  qed
  with k(1) show ?thesis by (simp add: distinct_map)
qed

text \<open>Of two ids that read as numbers, \<^verbatim>\<open>Math.min\<close> and \<^verbatim>\<open>Math.max\<close> return the two ids.\<close>

lemma js_min_max_set: "a \<noteq> NaN \<Longrightarrow> b \<noteq> NaN \<Longrightarrow> {js_min a b, js_max a b} = {a, b}"
  by (cases a; cases b; auto simp: js_min_def js_max_def)

lemma pairKey_inj:
  assumes "inj_on idOf A" "\<forall>r \<in> A. idOf r \<noteq> NaN"
    "fst p \<in> A" "snd p \<in> A" "fst q \<in> A" "snd q \<in> A"
    "pairKey idOf p = pairKey idOf q"
  shows "unordered p = unordered q"
proof -
  have "{idOf (fst p), idOf (snd p)} = {js_min (idOf (fst p)) (idOf (snd p)), js_max (idOf (fst p)) (idOf (snd p))}"
    using assms(2-4) by (simp add: js_min_max_set)
  also have "\<dots> = {js_min (idOf (fst q)) (idOf (snd q)), js_max (idOf (fst q)) (idOf (snd q))}"
    using assms(7) by (simp add: pairKey_def)
  also have "\<dots> = {idOf (fst q), idOf (snd q)}"
    using assms(2,5,6) by (simp add: js_min_max_set)
  finally have "idOf ` unordered p = idOf ` unordered q" by (simp add: unordered_def)
  moreover have "unordered p \<subseteq> A" "unordered q \<subseteq> A" using assms by (auto simp: unordered_def)
  ultimately show ?thesis using assms(1) by (simp add: inj_on_image_eq_iff)
qed

subsection \<open>What the grid holds under a key\<close>

lemma cell_of_push:
  "cell_of (grid_push k r g) k' = (if k' = k then cell_of g k @ [r] else cell_of g k')"
  by (induction k r g rule: grid_push.induct) (auto simp: cell_of_def)

lemma cell_of_addObject:
  "set (cell_of (SpatialGrid_addObject cells r g) k)
     = set (cell_of g k) \<union> (if k \<in> set cells then {r} else {})"
  unfolding SpatialGrid_addObject_def
proof (induction cells arbitrary: g)
  case Nil then show ?case by simp
next
  case (Cons c cells)
  show ?case
    by (auto simp: Cons.IH cell_of_push)
qed

lemma cell_of_in_grid: "cell_of g k \<noteq> [] \<Longrightarrow> (k, cell_of g k) \<in> set g"
  by (auto simp: cell_of_def split: option.splits dest: map_of_SomeD)

lemma cell_of_foldl:
  "set (cell_of (foldl (\<lambda>g r. if active (objects ! r) \<and> \<not> destroyed (objects ! r)
                   then SpatialGrid_addObject (getCellsForBounds cs (getBounds (objects ! r))) r g
                   else g) g rs) k)
   = set (cell_of g k) \<union> {r \<in> set rs. inserted cs objects r k}"
proof (induction rs arbitrary: g)
  case Nil then show ?case by simp
next
  case (Cons r rs)
  show ?case
    by (auto simp: Cons.IH cell_of_addObject inserted_def)
qed

lemma cell_of_addObjects:
  "set (cell_of (addObjects cs objects) k) = {r. r < length objects \<and> inserted cs objects r k}"
  unfolding addObjects_def cell_of_foldl by (auto simp: cell_of_def)

lemma grid_refs_foldl:
  "grid_refs (foldl (\<lambda>g r. if active (objects ! r) \<and> \<not> destroyed (objects ! r)
                   then SpatialGrid_addObject (getCellsForBounds cs (getBounds (objects ! r))) r g
                   else g) g rs) \<subseteq> grid_refs g \<union> set rs"
proof (induction rs arbitrary: g)
  case Nil then show ?case by simp
next
  case (Cons r rs)
  let ?g = "(if active (objects ! r) \<and> \<not> destroyed (objects ! r)
                   then SpatialGrid_addObject (getCellsForBounds cs (getBounds (objects ! r))) r g
                   else g)"
  have "grid_refs ?g \<subseteq> insert r (grid_refs g)"
    using grid_refs_addObject [of _ r g] by auto
  with Cons.IH [of ?g] show ?case by auto
qed

lemma grid_refs_addObjects: "grid_refs (addObjects cs objects) \<subseteq> {..<length objects}"
  unfolding addObjects_def using grid_refs_foldl [of objects cs "[]" "[0..<length objects]"] by auto

lemma in_getCellsForBounds:
  "(cx, cy) \<in> set (getCellsForBounds cs bounds) \<longleftrightarrow>
     \<lfloor>b_x bounds / cs\<rfloor> \<le> cx \<and> cx \<le> \<lfloor>(b_x bounds + b_width bounds) / cs\<rfloor>
     \<and> \<lfloor>b_y bounds / cs\<rfloor> \<le> cy \<and> cy \<le> \<lfloor>(b_y bounds + b_height bounds) / cs\<rfloor>"
  by (auto simp: getCellsForBounds_def Let_def image_iff)

lemma getCellsForBounds_covers:
  assumes "0 < cs" "b_x bounds \<le> px" "px \<le> b_x bounds + b_width bounds"
    "b_y bounds \<le> py" "py \<le> b_y bounds + b_height bounds"
  shows "(\<lfloor>px / cs\<rfloor>, \<lfloor>py / cs\<rfloor>) \<in> set (getCellsForBounds cs bounds)"
proof -
  have "\<lfloor>b_x bounds / cs\<rfloor> \<le> \<lfloor>px / cs\<rfloor>" "\<lfloor>px / cs\<rfloor> \<le> \<lfloor>(b_x bounds + b_width bounds) / cs\<rfloor>"
       "\<lfloor>b_y bounds / cs\<rfloor> \<le> \<lfloor>py / cs\<rfloor>" "\<lfloor>py / cs\<rfloor> \<le> \<lfloor>(b_y bounds + b_height bounds) / cs\<rfloor>"
    using assms by (simp_all add: floor_mono divide_right_mono)
  then show ?thesis by (simp add: in_getCellsForBounds)
qed

subsection \<open>Uniqueness and completeness of the candidate pairs\<close>

text \<open>
  Let the ids of the objects read as pairwise different numbers, as the ids drawn from
  \<^verbatim>\<open>GameObject.idCounter\<close> do, let the cell size be positive, and let the grid be built
  by \<^verbatim>\<open>addObjects\<close> from the objects.  Then
  \<^item> \<^verbatim>\<open>getPotentialCollisionPairs\<close> returns no unordered pair twice (this part needs no
    hypothesis);
  \<^item> it returns, in one order or the other, every pair of different objects that were
    inserted under a common cell key;
  \<^item> every active, not destroyed object is held under each cell key of its bounds;
  \<^item> the cell keys of a box include the cell of every point of the box.
\<close>

lemma getPotentialCollisionPairs_numeric_ids:
  assumes "distinct (map obj_id objects)" and "\<forall>obj \<in> set objects. obj_id obj \<noteq> NaN" and "0 < cs"
  shows "distinct (map unordered (getPotentialCollisionPairs (\<lambda>r. obj_id (objects ! r)) (addObjects cs objects)))
    \<and> (\<forall>a b k. a < length objects \<and> b < length objects \<and> a \<noteq> b
          \<and> active (objects ! a) \<and> \<not> destroyed (objects ! a)
          \<and> k \<in> set (getCellsForBounds cs (getBounds (objects ! a)))
          \<and> active (objects ! b) \<and> \<not> destroyed (objects ! b)
          \<and> k \<in> set (getCellsForBounds cs (getBounds (objects ! b)))
        \<longrightarrow> (a, b) \<in> set (getPotentialCollisionPairs (\<lambda>r. obj_id (objects ! r)) (addObjects cs objects))
          \<or> (b, a) \<in> set (getPotentialCollisionPairs (\<lambda>r. obj_id (objects ! r)) (addObjects cs objects)))
    \<and> (\<forall>r k. r < length objects \<and> active (objects ! r) \<and> \<not> destroyed (objects ! r)
          \<and> k \<in> set (getCellsForBounds cs (getBounds (objects ! r)))
        \<longrightarrow> r \<in> set (cell_of (addObjects cs objects) k))
    \<and> (\<forall>(bounds :: Bounds) px py. b_x bounds \<le> px \<and> px \<le> b_x bounds + b_width bounds
          \<and> b_y bounds \<le> py \<and> py \<le> b_y bounds + b_height bounds
        \<longrightarrow> (\<lfloor>px / cs\<rfloor>, \<lfloor>py / cs\<rfloor>) \<in> set (getCellsForBounds cs bounds))"
proof (intro conjI allI impI)
  let ?idOf = "\<lambda>r. obj_id (objects ! r)"
  let ?g = "addObjects cs objects"
  let ?pairs = "getPotentialCollisionPairs ?idOf ?g"
  show "distinct (map unordered ?pairs)" by (rule pairs_distinct_unordered)
next
  let ?idOf = "\<lambda>r. obj_id (objects ! r)"
  let ?g = "addObjects cs objects"
  let ?pairs = "getPotentialCollisionPairs ?idOf ?g"
  fix a b k
  assume h0: "a < length objects \<and> b < length objects \<and> a \<noteq> b
          \<and> active (objects ! a) \<and> \<not> destroyed (objects ! a)
          \<and> k \<in> set (getCellsForBounds cs (getBounds (objects ! a)))
          \<and> active (objects ! b) \<and> \<not> destroyed (objects ! b)
          \<and> k \<in> set (getCellsForBounds cs (getBounds (objects ! b)))"
  then have h: "a < length objects \<and> b < length objects \<and> a \<noteq> b
          \<and> inserted cs objects a k \<and> inserted cs objects b k"
    by (simp add: inserted_def)
  have inj: "inj_on ?idOf {..<length objects}"
    using assms(1) by (auto simp: inj_on_def distinct_conv_nth)
  have num: "\<forall>r \<in> {..<length objects}. ?idOf r \<noteq> NaN"
    using assms(2) by simp
  from h have ab: "a \<in> set (cell_of ?g k)" "b \<in> set (cell_of ?g k)" "a \<noteq> b"
    by (simp_all add: cell_of_addObjects)
  then have "cell_of ?g k \<noteq> []" by auto
  then have cell: "(k, cell_of ?g k) \<in> set ?g" by (rule cell_of_in_grid)
  from ab have "(a, b) \<in> set (cellPairs (cell_of ?g k)) \<or> (b, a) \<in> set (cellPairs (cell_of ?g k))"
    by (rule cellPairs_complete)
  then obtain q where q: "q \<in> set (cellPairs (cell_of ?g k))" "q = (a, b) \<or> q = (b, a)" by auto
  from q(1) cell have "q \<in> set (concat (map (\<lambda>cell. cellPairs (snd cell)) ?g))" by force
  then have "pairKey ?idOf q \<in> pairKey ?idOf ` set ?pairs"
    unfolding pairs_keys_complete by (rule imageI)
  then obtain p where p: "p \<in> set ?pairs" "pairKey ?idOf p = pairKey ?idOf q" by auto
  from p(1) have "p \<in> grid_refs ?g \<times> grid_refs ?g"
    using pairs_subset_refs [of ?idOf ?g] by blast
  then have "fst p \<in> grid_refs ?g" "snd p \<in> grid_refs ?g"
    by (simp_all add: mem_Times_iff)
  then have "fst p \<in> {..<length objects}" "snd p \<in> {..<length objects}"
    using grid_refs_addObjects [of cs objects] by blast+
  moreover have "fst q \<in> {..<length objects}" "snd q \<in> {..<length objects}"
    using q(2) h by auto
  ultimately have "unordered p = unordered q"
    using inj num p(2) by (intro pairKey_inj [of ?idOf "{..<length objects}"])
  with q(2) have "p = (a, b) \<or> p = (b, a)"
    by (cases p) (auto simp: unordered_def doubleton_eq_iff)
  with p(1) show "(a, b) \<in> set ?pairs \<or> (b, a) \<in> set ?pairs" by auto
next
  fix r k
  assume "r < length objects \<and> active (objects ! r) \<and> \<not> destroyed (objects ! r)
          \<and> k \<in> set (getCellsForBounds cs (getBounds (objects ! r)))"
  then show "r \<in> set (cell_of (addObjects cs objects) k)"
    by (simp add: cell_of_addObjects inserted_def)
next
  fix bounds :: Bounds and px py
  assume "b_x bounds \<le> px \<and> px \<le> b_x bounds + b_width bounds
          \<and> b_y bounds \<le> py \<and> py \<le> b_y bounds + b_height bounds"
  with assms(3) show "(\<lfloor>px / cs\<rfloor>, \<lfloor>py / cs\<rfloor>) \<in> set (getCellsForBounds cs bounds)"
    by (simp add: getCellsForBounds_covers)
qed

lemma example_row_pairs:
  "getPotentialCollisionPairs (\<lambda>r. obj_id (example_row ! r)) (addObjects 64 example_row)
     = [(0, 1), (1, 2)]"
  by (simp add: example_row_def addObjects_def SpatialGrid_addObject_def getCellsForBounds_def
      getBounds_def GameObject_new_simps Let_def getPotentialCollisionPairs_def emitPair_def
      pairKey_def js_min_def js_max_def upto.simps)

text \<open>
  C3 at a concrete input.  \<open>example_level_enemies\<close> are three enemies as
  \<^verbatim>\<open>World.createEntityFromData\<close> builds them from level data with the ids \<^verbatim>\<open>'enemy_1'\<close>,
  \<^verbatim>\<open>'enemy_2'\<close> and \<^verbatim>\<open>'enemy_3'\<close>, standing at x = 0, 8 and 16.  All three are inserted
  under the cell key (0, 0), and under no other.  The key of every pair is \<^verbatim>\<open>NaN-NaN\<close>:
  \<^verbatim>\<open>getPotentialCollisionPairs\<close> returns the first pair only, and the pairs of the third
  enemy with the first and with the second are missing.  The same three enemies with
  the ids that their constructor drew from the counter give all three pairs.
\<close>

theorem getPotentialCollisionPairs_level_ids_drop_pairs:
  "addObjects 64 example_level_enemies = [((0, 0), [0, 1, 2])]
   \<and> map obj_id example_level_enemies = [NaN, NaN, NaN]
   \<and> getPotentialCollisionPairs (\<lambda>r. obj_id (example_level_enemies ! r))
         (addObjects 64 example_level_enemies) = [(0, 1)]
   \<and> addObjects 64 example_counter_enemies = [((0, 0), [0, 1, 2])]
   \<and> getPotentialCollisionPairs (\<lambda>r. obj_id (example_counter_enemies ! r))
         (addObjects 64 example_counter_enemies) = [(0, 1), (0, 2), (1, 2)]"
proof -
  have g: "addObjects 64 example_level_enemies = [((0, 0), [0, 1, 2])]"
    by (simp add: example_level_enemies_def example_counter_enemies_def addObjects_def
        SpatialGrid_addObject_def getCellsForBounds_def getBounds_def Enemy_new_def
        GameObject.extend_def GameObject_new_def Let_def upto.simps)
  have g': "addObjects 64 example_counter_enemies = [((0, 0), [0, 1, 2])]"
    by (simp add: example_counter_enemies_def addObjects_def
        SpatialGrid_addObject_def getCellsForBounds_def getBounds_def Enemy_new_def
        GameObject.extend_def GameObject_new_def Let_def upto.simps)
  have i: "map obj_id example_level_enemies = [NaN, NaN, NaN]"
    by (simp add: example_level_enemies_def example_counter_enemies_def)
  have n: "obj_id (example_level_enemies ! 0) = NaN" "obj_id (example_level_enemies ! Suc 0) = NaN"
    "obj_id (example_level_enemies ! 2) = NaN"
    by (simp_all add: example_level_enemies_def example_counter_enemies_def)
  have p: "getPotentialCollisionPairs (\<lambda>r. obj_id (example_level_enemies ! r)) [((0, 0), [0, 1, 2])] = [(0, 1)]"
    by (simp add: getPotentialCollisionPairs_def emitPair_def pairKey_def js_min_def js_max_def n)
  have c: "obj_id (example_counter_enemies ! 0) = Num 5" "obj_id (example_counter_enemies ! Suc 0) = Num 6"
    "obj_id (example_counter_enemies ! 2) = Num 7"
    by (simp_all add: example_counter_enemies_def Enemy_new_def GameObject.extend_def GameObject_new_def)
  have p': "getPotentialCollisionPairs (\<lambda>r. obj_id (example_counter_enemies ! r)) [((0, 0), [0, 1, 2])]
            = [(0, 1), (0, 2), (1, 2)]"
    by (simp add: getPotentialCollisionPairs_def emitPair_def pairKey_def js_min_def js_max_def c)
  show ?thesis by (simp only: g g' i p p')
qed

section \<open>Properties of the physics step\<close>

subsection \<open>Which pairs reach the narrow phase\<close>

lemma canLayersCollide_default:
  "\<not> canLayersCollide Physics_new ''default'' l" "\<not> canLayersCollide Physics_new l ''default''"
  by (auto simp add: canLayersCollide_def Physics_new_def setupDefaultCollisionLayers_def
      setLayerCollision_def split: option.splits if_splits)

text \<open>
  C4, as stated, fails in two ways.  Two freshly constructed objects (layer and mask
  \<^verbatim>\<open>['default']\<close>) pass \<^verbatim>\<open>shouldCheckCollision\<close> although the layer table of
  \<^verbatim>\<open>new Physics()\<close> has no entry that allows \<^verbatim>\<open>'default'\<close> with itself: the table is not
  consulted.  And a pair where B's mask contains A's layer is rejected when B's own list
  of layers is empty, because the test sits inside the loop over B's layers.
\<close>

theorem shouldCheckCollision_table_counterexample:
  "shouldCheckCollision [GameObject_new 5 0 0 32 32, GameObject_new 6 16 0 32 32] 0 1
   \<and> \<not> canLayersCollide Physics_new ''default'' ''default''
   \<and> \<not> shouldCheckCollision
         [(GameObject_new 5 0 0 32 32)\<lparr>collisionLayers := Some [''player''], collisionMask := Some []\<rparr>,
          (GameObject_new 6 16 0 32 32)\<lparr>collisionLayers := Some [], collisionMask := Some [''player'']\<rparr>] 0 1"
  by (simp add: shouldCheckCollision_def GameObject_new_simps orDefault_def canLayersCollide_default)

text \<open>
  C4, amended.  A candidate pair reaches the narrow phase exactly when the two
  references differ, both objects are active and not destroyed, at least one is solid or
  a trigger, and either A has a layer and A's mask contains one of B's layers, or B has a
  layer and B's mask contains one of A's layers (a missing list standing for
  \<^verbatim>\<open>['default']\<close>).  The layer table of Physics plays no part: \<^verbatim>\<open>shouldCheckCollision\<close>
  does not read it.
\<close>

theorem shouldCheckCollision_iff_masks:
  "shouldCheckCollision objects a b \<longleftrightarrow>
     a \<noteq> b
     \<and> \<not> destroyed (objects ! a) \<and> \<not> destroyed (objects ! b)
     \<and> active (objects ! a) \<and> active (objects ! b)
     \<and> (solid (objects ! a) \<or> solid (objects ! b) \<or> isTrigger (objects ! a) \<or> isTrigger (objects ! b))
     \<and> ((orDefault (collisionLayers (objects ! a)) \<noteq> []
          \<and> (\<exists>layerB \<in> set (orDefault (collisionLayers (objects ! b))).
                layerB \<in> set (orDefault (collisionMask (objects ! a)))))
        \<or> (orDefault (collisionLayers (objects ! b)) \<noteq> []
          \<and> (\<exists>layerA \<in> set (orDefault (collisionLayers (objects ! a))).
                layerA \<in> set (orDefault (collisionMask (objects ! b))))))"
  unfolding shouldCheckCollision_def Let_def list_ex_iff
  by (cases "orDefault (collisionLayers (objects ! a))"; cases "orDefault (collisionLayers (objects ! b))") auto


theorem shouldCheckCollision_iff_masks_witness:
  "shouldCheckCollision
     [(Player_new 5 0 0), (Player_new 6 16 0)\<lparr>collisionLayers := Some [''pickup''], collisionMask := Some []\<rparr>] 0 1
   \<and> \<not> shouldCheckCollision
     [(Player_new 5 0 0), (Player_new 6 16 0)\<lparr>collisionLayers := Some [''water''], collisionMask := Some []\<rparr>] 0 1"
  using shouldCheckCollision_iff_masks
      [of "[(Player_new 5 0 0), (Player_new 6 16 0)\<lparr>collisionLayers := Some [''pickup''], collisionMask := Some []\<rparr>]" 0 1]
    shouldCheckCollision_iff_masks
      [of "[(Player_new 5 0 0), (Player_new 6 16 0)\<lparr>collisionLayers := Some [''water''], collisionMask := Some []\<rparr>]" 0 1]
  by (simp add: Player_new_def GameObject.extend_def Player.fields_def GameObject_new_def orDefault_def)

subsection \<open>Gravity and objects with gravityScale 0\<close>

lemma applyGravity_obj_zero: "gravityScale obj = 0 \<Longrightarrow> applyGravity_obj ph obj = obj"
  by (simp add: applyGravity_obj_def)

lemma applyGravity_nth: "i < length xs \<Longrightarrow> applyGravity ph xs ! i = applyGravity_obj ph (xs ! i)"
  by (simp add: applyGravity_def)

lemma applyGravity_iter_length: "length ((applyGravity ph ^^ n) objects) = length objects"
  by (induction n) (simp_all add: applyGravity_def)

lemma applyGravity_iter_zero:
  "i < length objects \<Longrightarrow> gravityScale (objects ! i) = 0 \<Longrightarrow> (applyGravity ph ^^ n) objects ! i = objects ! i"
proof (induction n)
  case 0 then show ?case by simp
next
  case (Suc n)
  then show ?case by (simp add: applyGravity_nth applyGravity_iter_length applyGravity_obj_zero)
qed

lemma detectCollisions_single:
  assumes "grid_refs g \<subseteq> {0}"
  shows "detectCollisions [obj] g = []"
proof -
  have "\<forall>p \<in> set (getPotentialCollisionPairs (\<lambda>r. obj_id ([obj] ! r)) g). fst p = snd p"
  proof
    fix p assume "p \<in> set (getPotentialCollisionPairs (\<lambda>r. obj_id ([obj] ! r)) g)"
    then have "p \<in> grid_refs g \<times> grid_refs g"
      using pairs_subset_refs [of "\<lambda>r. obj_id ([obj] ! r)" g] by blast
    then have "fst p \<in> {0}" "snd p \<in> {0}" using assms by (auto simp: mem_Times_iff)
    then show "fst p = snd p" by simp
  qed
  then show ?thesis
    unfolding detectCollisions_def
    by (auto simp: shouldCheckCollision_def Let_def)
qed

lemma resolveCollisions_Nil: "resolveCollisions [] st = st"
  by (simp add: resolveCollisions_def)

lemma moved_fields: "gravityScale (moved t obj) = gravityScale obj" "active (moved t obj) = active obj"
  "destroyed (moved t obj) = destroyed obj" "velocity (moved t obj) = velocity obj"
  by (simp_all add: moved_def)

lemma moved_moved: "moved s (moved t obj) = moved (t + s) obj"
  by (simp add: moved_def Vector2_add_def Vector2_multiply_def algebra_simps)

lemma moved_0: "moved 0 obj = obj"
  by (simp add: moved_def Vector2_add_def Vector2_multiply_def)

lemma physicsSubStep_single:
  assumes "grid_refs g \<subseteq> {0}" "gravityScale obj = 0"
  shows "physicsSubStep g sdt ([obj], ev) = ([moved sdt obj], ev)"
  using assms
  by (simp add: physicsSubStep_def detectCollisions_single resolveCollisions_Nil moved_def integratePosition_def)

lemma physicsSubStep_single_iter:
  assumes "grid_refs g \<subseteq> {0}" "gravityScale obj = 0"
  shows "(physicsSubStep g sdt ^^ k) ([obj], ev) = ([moved (real k * sdt) obj], ev)"
proof (induction k)
  case 0 then show ?case by (simp add: moved_0)
next
  case (Suc k)
  then show ?case using assms
    by (simp add: physicsSubStep_single moved_fields moved_moved algebra_simps)
qed

lemma grid_single: "grid_refs (addObjects cs [obj]) \<subseteq> {0}"
  using grid_refs_addObjects [of cs "[obj]"] by auto

lemma update_single:
  assumes "gravityScale obj = 0" "0 < subSteps ph"
  shows "update ph dt [obj] = ([moved dt obj], [])"
  using assms
  by (simp add: update_def Let_def applyGravity_def applyGravity_obj_zero
      physicsSubStep_single_iter [OF grid_single])

lemma update_single_iter:
  assumes "gravityScale obj = 0" "0 < subSteps ph"
  shows "((\<lambda>os. fst (update ph dt os)) ^^ n) [obj] = [moved (real n * dt) obj]"
proof (induction n)
  case 0 then show ?case by (simp add: moved_0)
next
  case (Suc n)
  then show ?case using assms
    by (simp add: update_single moved_fields moved_moved algebra_simps)
qed


text \<open>Collision resolution and position integration never write the gravity scale or the
  acceleration of any object; gravity and velocity integration leave them alone on an
  object whose gravity scale is 0.\<close>

lemma inertia_positionalCorrection:
  "inertia (fst (positionalCorrection objA objB c)) = inertia objA"
  "inertia (snd (positionalCorrection objA objB c)) = inertia objB"
  by (simp_all add: positionalCorrection_def inertia_def Let_def)

lemma inertia_applyFriction:
  "inertia (fst (applyFriction objA objB c ni)) = inertia objA"
  "inertia (snd (applyFriction objA objB c ni)) = inertia objB"
  by (simp_all add: applyFriction_def inertia_def Let_def)

lemma inertia_resolveVelocity:
  "inertia (fst (resolveVelocity objA objB c)) = inertia objA"
  "inertia (snd (resolveVelocity objA objB c)) = inertia objB"
  by (simp_all add: resolveVelocity_def Let_def inertia_applyFriction) (simp_all add: inertia_def)

lemma inertia_list_update:
  assumes "inertia A2 = inertia (xs ! a)" "inertia B2 = inertia (xs ! b)" "j < length xs"
  shows "inertia (xs[a := A2, b := B2] ! j) = inertia (xs ! j)"
proof (cases "j = b")
  case True then show ?thesis using assms by simp
next
  case False
  then show ?thesis using assms by (cases "j = a") simp_all
qed

lemma resolveCollision_inertia:
  "length (fst (resolveCollision st pair)) = length (fst st)
   \<and> (\<forall>j. j < length (fst st) \<longrightarrow> inertia (fst (resolveCollision st pair) ! j) = inertia (fst st ! j))"
proof -
  obtain A1 B1 where pc: "positionalCorrection (fst st ! objectA pair) (fst st ! objectB pair) (collision pair) = (A1, B1)"
    by (cases "positionalCorrection (fst st ! objectA pair) (fst st ! objectB pair) (collision pair)")
  obtain A2 B2 where rv: "resolveVelocity A1 B1 (collision pair) = (A2, B2)"
    by (cases "resolveVelocity A1 B1 (collision pair)")
  have A: "inertia A2 = inertia (fst st ! objectA pair)"
    using inertia_resolveVelocity(1) [of A1 B1 "collision pair"]
      inertia_positionalCorrection(1) [of "fst st ! objectA pair" "fst st ! objectB pair" "collision pair"]
    by (simp add: pc rv)
  have B: "inertia B2 = inertia (fst st ! objectB pair)"
    using inertia_resolveVelocity(2) [of A1 B1 "collision pair"]
      inertia_positionalCorrection(2) [of "fst st ! objectA pair" "fst st ! objectB pair" "collision pair"]
    by (simp add: pc rv)
  show ?thesis
    using inertia_list_update [OF A B]
    by (simp add: resolveCollision_def Let_def pc rv handleTriggerCollision_def handleCollisionCallbacks_def)
qed

lemma foldl_resolveCollision_inertia:
  "length (fst (foldl resolveCollision st ps)) = length (fst st)
   \<and> (\<forall>j. j < length (fst st) \<longrightarrow> inertia (fst (foldl resolveCollision st ps) ! j) = inertia (fst st ! j))"
proof (induction ps arbitrary: st)
  case Nil then show ?case by simp
next
  case (Cons p ps)
  show ?case
    using Cons.IH [of "resolveCollision st p"] resolveCollision_inertia [of st p] by simp
qed

lemma physicsSubStep_inertia:
  assumes "i < length (fst st)" "gravityScale (fst st ! i) = 0"
  shows "length (fst (physicsSubStep g sdt st)) = length (fst st)
     \<and> inertia (fst (physicsSubStep g sdt st) ! i) = inertia (fst st ! i)"
proof -
  define o1 where "o1 = map (\<lambda>obj. if active obj \<and> \<not> destroyed obj \<and> gravityScale obj \<noteq> 0
                                 then integrateVelocity sdt obj else obj) (fst st)"
  define r where "r = resolveCollisions (detectCollisions o1 g) (o1, snd st)"
  have l1: "length o1 = length (fst st)" by (simp add: o1_def)
  have i1: "inertia (o1 ! i) = inertia (fst st ! i)"
    using assms by (simp add: o1_def)
  have r2: "length (fst r) = length o1 \<and> (\<forall>j. j < length o1 \<longrightarrow> inertia (fst r ! j) = inertia (o1 ! j))"
    unfolding r_def resolveCollisions_def
    using foldl_resolveCollision_inertia [of "(o1, snd st)"] by simp
  have ps: "fst (physicsSubStep g sdt st)
     = map (\<lambda>obj. if active obj \<and> \<not> destroyed obj then integratePosition sdt obj else obj) (fst r)"
    by (simp add: physicsSubStep_def Let_def o1_def r_def split_beta)
  show ?thesis
    unfolding ps using r2 l1 i1 assms(1) by (simp add: inertia_def integratePosition_def)
qed

lemma physicsSubStep_iter_inertia:
  assumes "i < length (fst st)" "gravityScale (fst st ! i) = 0"
  shows "length (fst ((physicsSubStep g sdt ^^ k) st)) = length (fst st)
     \<and> inertia (fst ((physicsSubStep g sdt ^^ k) st) ! i) = inertia (fst st ! i)"
proof (induction k)
  case 0 then show ?case by simp
next
  case (Suc k)
  let ?s = "(physicsSubStep g sdt ^^ k) st"
  have a: "i < length (fst ?s)" "gravityScale (fst ?s ! i) = 0"
    using Suc assms by (simp_all add: inertia_def)
  show ?case using physicsSubStep_inertia [OF a, of g sdt] Suc by simp
qed

lemma update_inertia:
  assumes "i < length objects" "gravityScale (objects ! i) = 0"
  shows "length (fst (update ph dt objects)) = length objects
     \<and> inertia (fst (update ph dt objects) ! i) = inertia (objects ! i)"
proof -
  have a: "i < length (fst (applyGravity ph objects, [] :: event list))"
     "gravityScale (fst (applyGravity ph objects, [] :: event list) ! i) = 0"
    using assms by (simp_all add: applyGravity_def applyGravity_obj_zero)
  have "applyGravity ph objects ! i = objects ! i"
    using assms by (simp add: applyGravity_def applyGravity_obj_zero)
  then show ?thesis
    unfolding update_def Let_def
    using physicsSubStep_iter_inertia [OF a] by (simp add: applyGravity_def)
qed

lemma update_iter_inertia:
  assumes "i < length objects" "gravityScale (objects ! i) = 0"
  shows "length (((\<lambda>os. fst (update ph dt os)) ^^ n) objects) = length objects
     \<and> inertia (((\<lambda>os. fst (update ph dt os)) ^^ n) objects ! i) = inertia (objects ! i)"
proof (induction n)
  case 0 then show ?case by simp
next
  case (Suc n)
  let ?os = "((\<lambda>os. fst (update ph dt os)) ^^ n) objects"
  have a: "i < length ?os" "gravityScale (?os ! i) = 0"
    using Suc assms by (simp_all add: inertia_def)
  show ?case using update_inertia [OF a, of ph dt] Suc by simp
qed


text \<open>
  C6.  An object with \<open>gravityScale = 0\<close> is left completely unchanged by any number of
  \<^verbatim>\<open>applyGravity\<close> passes, whatever else is in the world: no force is added.  Across any
  number of full updates of any world, collisions included, its gravity scale stays 0 and
  its accumulated acceleration stays what it was.  And for such an object alone in the
  world, any number of full updates only moves it along its own velocity, by
  \<open>n * deltaTime\<close> times the velocity: the result does not depend on the gravity vector, and
  velocity and acceleration stay as they were.
\<close>

theorem gravityScale_zero_unaffected_by_gravity:
  "(\<forall>i. i < length objects \<and> gravityScale (objects ! i) = 0 \<longrightarrow>
        (applyGravity ph ^^ n) objects ! i = objects ! i
        \<and> gravityScale (((\<lambda>os. fst (update ph dt os)) ^^ n) objects ! i) = 0
        \<and> acceleration (((\<lambda>os. fst (update ph dt os)) ^^ n) objects ! i) = acceleration (objects ! i))
   \<and> (gravityScale obj = 0 \<and> 0 < subSteps ph \<longrightarrow>
        ((\<lambda>os. fst (update ph dt os)) ^^ n) [obj] =
          [if active obj \<and> \<not> destroyed obj
           then obj\<lparr>position := Vector2_add (position obj) (Vector2_multiply (velocity obj) (real n * dt))\<rparr>
           else obj])"
proof -
  have "(applyGravity ph ^^ n) objects ! i = objects ! i
        \<and> gravityScale (((\<lambda>os. fst (update ph dt os)) ^^ n) objects ! i) = 0
        \<and> acceleration (((\<lambda>os. fst (update ph dt os)) ^^ n) objects ! i) = acceleration (objects ! i)"
    if "i < length objects" "gravityScale (objects ! i) = 0" for i
    using applyGravity_iter_zero [where objects = objects and ph = ph and n = n] that
      update_iter_inertia [where ph = ph and dt = dt and n = n, OF that]
    by (simp add: inertia_def)
  then show ?thesis
    using update_single_iter [where obj = obj and ph = ph and dt = dt and n = n]
    by (simp add: moved_def)
qed

theorem gravityScale_zero_unaffected_by_gravity_witness:
  "(applyGravity Physics_new ^^ 3) [example_floater, GameObject_new 6 100 0 32 32] ! 0 = example_floater
   \<and> acceleration (((\<lambda>os. fst (update Physics_new (1/2) os)) ^^ 3)
         [example_floater, GameObject_new 6 100 0 32 32] ! 0) = Vector2_zero
   \<and> ((\<lambda>os. fst (update Physics_new (1/2) os)) ^^ 2) [example_floater]
       = [example_floater\<lparr>position := \<lparr>vec_x = 3, vec_y = 4\<rparr>\<rparr>]"
proof -
  have g: "gravityScale example_floater = 0" "acceleration example_floater = Vector2_zero"
    "active example_floater" "\<not> destroyed example_floater"
    "position example_floater = \<lparr>vec_x = 0, vec_y = 0\<rparr>"
    "velocity example_floater = \<lparr>vec_x = 3, vec_y = 4\<rparr>"
    by (simp_all add: example_floater_def GameObject_new_simps Vector2_zero_def)
  have s: "0 < subSteps Physics_new"
    by (simp add: Physics_new_def setupDefaultCollisionLayers_def setLayerCollision_def)
  note t = gravityScale_zero_unaffected_by_gravity
      [where objects = "[example_floater, GameObject_new 6 100 0 32 32]" and ph = Physics_new
         and n = 3 and obj = example_floater and dt = "1/2"]
  note u = gravityScale_zero_unaffected_by_gravity
      [where objects = "[example_floater]" and ph = Physics_new
         and n = 2 and obj = example_floater and dt = "1/2"]
  have 1: "(applyGravity Physics_new ^^ 3) [example_floater, GameObject_new 6 100 0 32 32] ! 0 = example_floater
     \<and> acceleration (((\<lambda>os. fst (update Physics_new (1/2) os)) ^^ 3)
         [example_floater, GameObject_new 6 100 0 32 32] ! 0) = Vector2_zero"
    using t [THEN conjunct1, THEN spec, where x = 0] g by simp
  have 2: "((\<lambda>os. fst (update Physics_new (1/2) os)) ^^ 2) [example_floater]
       = [example_floater\<lparr>position := \<lparr>vec_x = 3, vec_y = 4\<rparr>\<rparr>]"
    using u [THEN conjunct2] g s by (simp add: Vector2_add_def Vector2_multiply_def)
  show ?thesis using 1 2 by simp
qed

subsection \<open>Positional correction\<close>

text \<open>
  How \<^verbatim>\<open>positionalCorrection\<close> splits the correction \<open>0.8 * penetration * normal\<close>
  when the total mass is not zero: with
  both objects solid, A is moved against the normal by the share \<open>mass B / total\<close> and B
  along the normal by the share \<open>mass A / total\<close>; with one solid object the other one
  takes the whole correction.
\<close>

lemma positionalCorrection_split:
  assumes "mass objA + mass objB \<noteq> 0"
  shows "positionalCorrection objA objB c =
     (if solid objA \<and> solid objB then
        (objA\<lparr>position := Vector2_subtract (position objA)
             (Vector2_multiply (normal c) (penetration c * 0.8 * (mass objB / (mass objA + mass objB))))\<rparr>,
         objB\<lparr>position := Vector2_add (position objB)
             (Vector2_multiply (normal c) (penetration c * 0.8 * (mass objA / (mass objA + mass objB))))\<rparr>)
      else if solid objA then
        (objA, objB\<lparr>position := Vector2_add (position objB) (Vector2_multiply (normal c) (penetration c * 0.8))\<rparr>)
      else if solid objB then
        (objA\<lparr>position := Vector2_subtract (position objA) (Vector2_multiply (normal c) (penetration c * 0.8))\<rparr>, objB)
      else (objA, objB))"
  by (simp add: positionalCorrection_def Let_def Vector2_multiply_def mult.assoc)

text \<open>
  Relative to A, the correction moves B by \<open>0.8 * penetration\<close> along the normal; and the
  normal that \<^verbatim>\<open>checkAABBCollision\<close> returns never points from A's box towards B's.
  Together: the correction moves the two boxes towards each other.
\<close>

lemma split_sum:
  fixes mA mB a b k :: real
  assumes "mA + mB \<noteq> 0"
  shows "(b + k * (mA / (mA + mB))) - (a - k * (mB / (mA + mB))) = b - a + k"
proof -
  have "k * (mA / (mA + mB)) + k * (mB / (mA + mB)) = k * ((mA + mB) / (mA + mB))"
    by (simp only: distrib_left add_divide_distrib)
  also have "\<dots> = k" using assms by simp
  finally show ?thesis by linarith
qed

lemma positionalCorrection_relative:
  assumes "solid objA" "solid objB" "mass objA + mass objB \<noteq> 0"
  shows "Vector2_subtract (position (snd (positionalCorrection objA objB c))) (position (fst (positionalCorrection objA objB c)))
    = Vector2_add (Vector2_subtract (position objB) (position objA)) (Vector2_multiply (normal c) (penetration c * 0.8))"
proof -
  have A: "position (fst (positionalCorrection objA objB c))
           = \<lparr>vec_x = vec_x (position objA) - vec_x (normal c) * (penetration c * 0.8) * (mass objB / (mass objA + mass objB)),
              vec_y = vec_y (position objA) - vec_y (normal c) * (penetration c * 0.8) * (mass objB / (mass objA + mass objB))\<rparr>"
    using assms(1,2)
    by (simp add: positionalCorrection_def Let_def Vector2_subtract_def Vector2_multiply_def)
  have B: "position (snd (positionalCorrection objA objB c))
           = \<lparr>vec_x = vec_x (position objB) + vec_x (normal c) * (penetration c * 0.8) * (mass objA / (mass objA + mass objB)),
              vec_y = vec_y (position objB) + vec_y (normal c) * (penetration c * 0.8) * (mass objA / (mass objA + mass objB))\<rparr>"
    using assms(1,2)
    by (simp add: positionalCorrection_def Let_def Vector2_add_def Vector2_multiply_def)
  show ?thesis
    unfolding A B Vector2_subtract_def Vector2_add_def Vector2_multiply_def
    by (simp only: Vector2.simps split_sum [OF assms(3)])
qed

lemma checkAABBCollision_normal_towards_A:
  assumes "checkAABBCollision objA objB = Some c"
  shows "Vector2_dot (normal c) \<lparr>vec_x = b_x (getBounds objB) - b_x (getBounds objA),
                                  vec_y = b_y (getBounds objB) - b_y (getBounds objA)\<rparr> \<le> 0"
  using assms
  by (auto simp: checkAABBCollision_def Let_def Vector2_dot_def split: if_splits)

lemma example_overlap_grid: "addObjects 64 example_overlap = [((0, 0), [0, 1])]"
  by (simp add: example_overlap_def addObjects_def SpatialGrid_addObject_def getCellsForBounds_def
      getBounds_def GameObject_new_simps Let_def upto.simps)

lemma example_overlap_pairs:
  "getPotentialCollisionPairs (\<lambda>r. obj_id (os ! r)) [((0, 0), [0, 1])] = [(0, 1)]"
  by (simp add: getPotentialCollisionPairs_def emitPair_def pairKey_def)

lemma example_overlap_collision:
  "checkAABBCollision (example_overlap ! 0) (example_overlap ! 1)
     = Some \<lparr>normal = \<lparr>vec_x = - 1, vec_y = 0\<rparr>, penetration = 2, point = \<lparr>vec_x = 9, vec_y = 5\<rparr>\<rparr>"
  by (simp add: example_overlap_def checkAABBCollision_def getBounds_def GameObject_new_simps Let_def)

lemma example_overlap_detect:
  "detectCollisions example_overlap (addObjects 64 example_overlap)
     = [\<lparr>objectA = 0, objectB = 1,
         collision = \<lparr>normal = \<lparr>vec_x = - 1, vec_y = 0\<rparr>, penetration = 2,
                       point = \<lparr>vec_x = 9, vec_y = 5\<rparr>\<rparr>\<rparr>]"
  unfolding example_overlap_grid detectCollisions_def example_overlap_pairs
  using example_overlap_collision
  by (simp add: shouldCheckCollision_def example_overlap_def GameObject_new_simps orDefault_def)

lemma example_overlap_resolve:
  "resolveCollisions (detectCollisions example_overlap (addObjects 64 example_overlap)) (example_overlap, [])
   = ([(GameObject_new 5 0 0 10 10)\<lparr>position := \<lparr>vec_x = 0.8, vec_y = 0\<rparr>\<rparr>,
       (GameObject_new 6 8 0 10 10)\<lparr>position := \<lparr>vec_x = 7.2, vec_y = 0\<rparr>\<rparr>], [])"
  unfolding example_overlap_detect
  by (simp add: resolveCollisions_def resolveCollision_def example_overlap_def GameObject_new_simps
      positionalCorrection_def resolveVelocity_def applyFriction_def Vector2_magnitudeSquared_def
      handleCollisionCallbacks_def
      Vector2_multiply_def Vector2_subtract_def Vector2_add_def Vector2_dot_def Let_def hasTag_def)

lemma example_overlap_after:
  "checkAABBCollision ((GameObject_new 5 0 0 10 10)\<lparr>position := \<lparr>vec_x = 0.8, vec_y = 0\<rparr>\<rparr>)
       ((GameObject_new 6 8 0 10 10)\<lparr>position := \<lparr>vec_x = 7.2, vec_y = 0\<rparr>\<rparr>)
     = Some \<lparr>normal = \<lparr>vec_x = - 1, vec_y = 0\<rparr>, penetration = 3.6, point = \<lparr>vec_x = 9, vec_y = 5\<rparr>\<rparr>"
  by (simp add: checkAABBCollision_def getBounds_def GameObject_new_simps Let_def)

text \<open>
  C1 at a concrete input.  The two boxes of \<open>example_overlap\<close> are solid, not triggers,
  of equal mass, and overlap by \<open>p = 2\<close> along x, the axis of least overlap.  Detection
  reports penetration 2 with normal (-1, 0).  One resolution pass moves A from x = 0 to
  x = 0.8 and B from x = 8 to x = 7.2: the boxes are pushed into each other, and the
  overlap along x is 3.6 afterwards, where a separation by \<open>0.8 * p\<close> would leave 0.4.
\<close>

theorem positionalCorrection_pushes_together:
  "detectCollisions example_overlap (addObjects 64 example_overlap)
     = [\<lparr>objectA = 0, objectB = 1,
         collision = \<lparr>normal = \<lparr>vec_x = - 1, vec_y = 0\<rparr>, penetration = 2,
                       point = \<lparr>vec_x = 9, vec_y = 5\<rparr>\<rparr>\<rparr>]
   \<and> resolveCollisions (detectCollisions example_overlap (addObjects 64 example_overlap))
        (example_overlap, [])
     = ([(GameObject_new 5 0 0 10 10)\<lparr>position := \<lparr>vec_x = 0.8, vec_y = 0\<rparr>\<rparr>,
         (GameObject_new 6 8 0 10 10)\<lparr>position := \<lparr>vec_x = 7.2, vec_y = 0\<rparr>\<rparr>], [])
   \<and> checkAABBCollision ((GameObject_new 5 0 0 10 10)\<lparr>position := \<lparr>vec_x = 0.8, vec_y = 0\<rparr>\<rparr>)
        ((GameObject_new 6 8 0 10 10)\<lparr>position := \<lparr>vec_x = 7.2, vec_y = 0\<rparr>\<rparr>)
     = Some \<lparr>normal = \<lparr>vec_x = - 1, vec_y = 0\<rparr>, penetration = 3.6,
             point = \<lparr>vec_x = 9, vec_y = 5\<rparr>\<rparr>"
  using example_overlap_detect example_overlap_resolve example_overlap_after by simp

subsection \<open>Triggers\<close>

lemma example_trigger_grid: "addObjects 64 example_trigger = [((0, 0), [0, 1])]"
  by (simp add: example_trigger_def addObjects_def SpatialGrid_addObject_def getCellsForBounds_def
      getBounds_def GameObject_new_simps Let_def upto.simps)

lemma example_trigger_substep:
  "physicsSubStep [((0, 0), [0, 1])] dt (example_trigger, ev) = (example_trigger, ev @ [TriggerEnter 0 1])"
  unfolding physicsSubStep_def detectCollisions_def example_overlap_pairs
  by (simp add: example_trigger_def GameObject_new_simps shouldCheckCollision_def orDefault_def
      checkAABBCollision_def getBounds_def Let_def resolveCollisions_def resolveCollision_def
      handleTriggerCollision_def integratePosition_def Vector2_add_def Vector2_multiply_def)

text \<open>
  C2, as stated: \<^verbatim>\<open>onTriggerEnter\<close> fires once per overlap onset.  In \<open>example_trigger\<close>
  nothing moves and the overlap lasts through the whole update; a single
  \<^verbatim>\<open>Physics.update\<close> calls the trigger's \<^verbatim>\<open>onTriggerEnter\<close> four times, once in each of
  its four sub-steps.
\<close>

theorem onTriggerEnter_every_substep_counterexample:
  "update Physics_new (1/60) example_trigger
     = (example_trigger, [TriggerEnter 0 1, TriggerEnter 0 1, TriggerEnter 0 1, TriggerEnter 0 1])"
proof -
  have g: "applyGravity Physics_new example_trigger = example_trigger"
    by (simp add: applyGravity_def applyGravity_obj_def example_trigger_def GameObject_new_simps)
  have s: "subSteps Physics_new = 4" "cellSize Physics_new = 64"
    by (simp_all add: Physics_new_def setupDefaultCollisionLayers_def setLayerCollision_def)
  have f: "(f ^^ 4) x = f (f (f (f x)))" for f :: "'z \<Rightarrow> 'z" and x
    by (simp add: eval_nat_numeral)
  have "update Physics_new (1/60) example_trigger
        = (physicsSubStep [((0, 0), [0, 1])] (1 / 60 / real (4::nat)) ^^ 4) (example_trigger, [])"
    unfolding update_def Let_def g s example_trigger_grid ..
  also have "\<dots> = (example_trigger, [TriggerEnter 0 1, TriggerEnter 0 1, TriggerEnter 0 1, TriggerEnter 0 1])"
    unfolding f example_trigger_substep by simp
  finally show ?thesis .
qed

text \<open>
  C2, amended.  For a collision record in which either object is a trigger,
  \<^verbatim>\<open>resolveCollision\<close> calls \<^verbatim>\<open>onTriggerEnter\<close> once on each side that is a trigger and has
  the callback, and changes no object at all (so neither position nor velocity).  It
  does so for every record, that is in every sub-step in which the pair is detected.
\<close>

theorem resolveCollision_trigger_no_push:
  "isTrigger (fst st ! objectA pair) \<or> isTrigger (fst st ! objectB pair) \<Longrightarrow>
   resolveCollision st pair =
     (fst st,
      snd st
      @ (if isTrigger (fst st ! objectA pair) \<and> has_onTriggerEnter (fst st ! objectA pair)
         then [TriggerEnter (objectA pair) (objectB pair)] else [])
      @ (if isTrigger (fst st ! objectB pair) \<and> has_onTriggerEnter (fst st ! objectB pair)
         then [TriggerEnter (objectB pair) (objectA pair)] else []))"
  by (simp add: resolveCollision_def handleTriggerCollision_def Let_def)

theorem resolveCollision_trigger_no_push_witness:
  "isTrigger (example_trigger ! 0)
   \<and> resolveCollision (example_trigger, [])
        \<lparr>objectA = 0, objectB = 1,
         collision = \<lparr>normal = \<lparr>vec_x = - 1, vec_y = 0\<rparr>, penetration = 16,
                       point = \<lparr>vec_x = 24, vec_y = 16\<rparr>\<rparr>\<rparr>
       = (example_trigger, [TriggerEnter 0 1])"
  using resolveCollision_trigger_no_push
      [where st = "(example_trigger, [])"
         and pair = "\<lparr>objectA = 0, objectB = 1,
                       collision = \<lparr>normal = \<lparr>vec_x = - 1, vec_y = 0\<rparr>, penetration = 16,
                                     point = \<lparr>vec_x = 24, vec_y = 16\<rparr>\<rparr>\<rparr>"]
  by (simp add: example_trigger_def GameObject_new_simps)

subsection \<open>The callbacks of a sub-step\<close>

text \<open>
  Resolution writes positions and velocities only, so the flags of every object stay what
  they were at the start of the sub-step.  The callbacks called during one sub-step are
  therefore those of the records detected in it, in the order of resolution: a record
  with a trigger fires its \<^verbatim>\<open>onTriggerEnter\<close> calls in every sub-step in which it is
  detected, whatever happened in the sub-steps before.
\<close>

lemma flags_positionalCorrection:
  "callback_flags (fst (positionalCorrection objA objB c)) = callback_flags objA"
  "callback_flags (snd (positionalCorrection objA objB c)) = callback_flags objB"
  by (simp_all add: positionalCorrection_def callback_flags_def Let_def)

lemma flags_applyFriction:
  "callback_flags (fst (applyFriction objA objB c ni)) = callback_flags objA"
  "callback_flags (snd (applyFriction objA objB c ni)) = callback_flags objB"
  by (simp_all add: applyFriction_def callback_flags_def Let_def)

lemma flags_resolveVelocity:
  "callback_flags (fst (resolveVelocity objA objB c)) = callback_flags objA"
  "callback_flags (snd (resolveVelocity objA objB c)) = callback_flags objB"
  by (simp_all add: resolveVelocity_def Let_def flags_applyFriction) (simp_all add: callback_flags_def)

lemma flags_list_update:
  assumes "callback_flags A2 = callback_flags (xs ! a)" "callback_flags B2 = callback_flags (xs ! b)"
  shows "callback_flags (xs[a := A2, b := B2] ! j) = callback_flags (xs ! j)"
proof (cases "j = b \<and> b < length xs")
  case True then show ?thesis using assms by simp
next
  case False
  then have 1: "xs[a := A2, b := B2] ! j = xs[a := A2] ! j"
    by (cases "b < length xs") (auto simp: list_update_beyond)
  show ?thesis unfolding 1 using assms
    by (cases "j = a \<and> a < length xs") (cases "a < length xs"; auto simp: list_update_beyond)+
qed

lemma pair_callbacks_cong:
  assumes "\<And>j. callback_flags (xs ! j) = callback_flags (ys ! j)"
  shows "pair_callbacks xs pair = pair_callbacks ys pair"
  using assms [of "objectA pair"] assms [of "objectB pair"]
  by (simp add: pair_callbacks_def callback_flags_def handleTriggerCollision_def handleCollisionCallbacks_def)

lemma resolveCollision_flags:
  "callback_flags (fst (resolveCollision st pair) ! j) = callback_flags (fst st ! j)"
proof -
  obtain A1 B1 where pc: "positionalCorrection (fst st ! objectA pair) (fst st ! objectB pair) (collision pair) = (A1, B1)"
    by (cases "positionalCorrection (fst st ! objectA pair) (fst st ! objectB pair) (collision pair)")
  obtain A2 B2 where rv: "resolveVelocity A1 B1 (collision pair) = (A2, B2)"
    by (cases "resolveVelocity A1 B1 (collision pair)")
  have A: "callback_flags A2 = callback_flags (fst st ! objectA pair)"
    using flags_resolveVelocity(1) [of A1 B1 "collision pair"]
      flags_positionalCorrection(1) [of "fst st ! objectA pair" "fst st ! objectB pair" "collision pair"]
    by (simp add: pc rv)
  have B: "callback_flags B2 = callback_flags (fst st ! objectB pair)"
    using flags_resolveVelocity(2) [of A1 B1 "collision pair"]
      flags_positionalCorrection(2) [of "fst st ! objectA pair" "fst st ! objectB pair" "collision pair"]
    by (simp add: pc rv)
  show ?thesis
    using flags_list_update [OF A B]
    by (simp add: resolveCollision_def Let_def pc rv)
qed

lemma resolveCollision_events:
  "snd (resolveCollision st pair) = snd st @ pair_callbacks (fst st) pair"
proof -
  obtain A1 B1 where pc: "positionalCorrection (fst st ! objectA pair) (fst st ! objectB pair) (collision pair) = (A1, B1)"
    by (cases "positionalCorrection (fst st ! objectA pair) (fst st ! objectB pair) (collision pair)")
  obtain A2 B2 where rv: "resolveVelocity A1 B1 (collision pair) = (A2, B2)"
    by (cases "resolveVelocity A1 B1 (collision pair)")
  have A: "callback_flags A2 = callback_flags (fst st ! objectA pair)"
    using flags_resolveVelocity(1) [of A1 B1 "collision pair"]
      flags_positionalCorrection(1) [of "fst st ! objectA pair" "fst st ! objectB pair" "collision pair"]
    by (simp add: pc rv)
  have B: "callback_flags B2 = callback_flags (fst st ! objectB pair)"
    using flags_resolveVelocity(2) [of A1 B1 "collision pair"]
      flags_positionalCorrection(2) [of "fst st ! objectA pair" "fst st ! objectB pair" "collision pair"]
    by (simp add: pc rv)
  have c: "handleCollisionCallbacks ((fst st)[objectA pair := A2, objectB pair := B2]) (objectA pair) (objectB pair)
         = handleCollisionCallbacks (fst st) (objectA pair) (objectB pair)"
    using flags_list_update [OF A B, of "objectA pair"] flags_list_update [OF A B, of "objectB pair"]
    by (simp add: handleCollisionCallbacks_def callback_flags_def)
  show ?thesis
    by (simp add: resolveCollision_def Let_def pc rv pair_callbacks_def c)
qed

lemma resolveCollision_loop_events:
  "snd (foldl resolveCollision st ps) = snd st @ concat (map (pair_callbacks (fst st)) ps)"
proof (induction ps arbitrary: st)
  case Nil then show ?case by simp
next
  case (Cons p ps)
  have "pair_callbacks (fst (resolveCollision st p)) q = pair_callbacks (fst st) q" for q
    by (rule pair_callbacks_cong) (rule resolveCollision_flags)
  then show ?case
    using Cons.IH [of "resolveCollision st p"] by (simp add: resolveCollision_events)
qed

lemma nth_map_beyond: "length xs \<le> j \<Longrightarrow> map f xs ! j = xs ! j"
proof (induction xs arbitrary: j)
  case Nil then show ?case by simp
next
  case (Cons x xs)
  then obtain k where "j = Suc k" by (cases j) auto
  with Cons show ?case by simp
qed

lemma physicsSubStep_events:
  "snd (physicsSubStep g dt st) =
     snd st @ concat (map (pair_callbacks (fst st))
       (sort_key (\<lambda>p. - penetration (collision p))
          (detectCollisions (map (\<lambda>obj. if active obj \<and> \<not> destroyed obj \<and> gravityScale obj \<noteq> 0
                                       then integrateVelocity dt obj else obj) (fst st)) g)))"
proof -
  define o1 where "o1 = map (\<lambda>obj. if active obj \<and> \<not> destroyed obj \<and> gravityScale obj \<noteq> 0
                                 then integrateVelocity dt obj else obj) (fst st)"
  have fl: "callback_flags (o1 ! j) = callback_flags (fst st ! j)" for j
  proof (cases "j < length (fst st)")
    case True
    then show ?thesis by (simp add: o1_def callback_flags_def integrateVelocity_def)
  next
    case False
    then show ?thesis by (simp add: o1_def nth_map_beyond)
  qed
  have "snd (physicsSubStep g dt st) = snd (resolveCollisions (detectCollisions o1 g) (o1, snd st))"
    by (simp add: physicsSubStep_def Let_def o1_def split_beta)
  also have "\<dots> = snd st @ concat (map (pair_callbacks o1)
       (sort_key (\<lambda>p. - penetration (collision p)) (detectCollisions o1 g)))"
    by (simp add: resolveCollisions_def resolveCollision_loop_events)
  also have "pair_callbacks o1 = pair_callbacks (fst st)"
    by (rule ext) (rule pair_callbacks_cong, rule fl)
  finally show ?thesis by (simp add: o1_def)
qed

section \<open>Properties of the World's object lists\<close>

subsection \<open>The layer table\<close>




subsection \<open>The loops of processObjectChanges\<close>









subsection \<open>The objects' updates\<close>


lemma set_added: "set (added as) = {r. AddObject r \<in> set as}"
  by (induction as rule: added.induct) auto








subsection \<open>One frame\<close>



text \<open>After \<^verbatim>\<open>loadLevel\<close> has stored the tile arrays, the first layer is an array, and the
  removal of a live object throws.\<close>

lemma removal_after_loadLevel_throws:
  "processObjectChanges h
     ((loadLevel_tileLayers backgroundTiles collisionTiles foregroundTiles World_new)\<lparr>gameObjects := [0], toRemove := [0]\<rparr>)
   = Inl TypeError"
  by (simp add: processObjectChanges_def loadLevel_tileLayers_def World_new_def setupDefaultLayers_def
      removeStep_def removeObjectFromLayer_def Let_def)


subsection \<open>Deferred addition and removal\<close>




section \<open>Properties of the degenerate inputs\<close>

subsection \<open>The two models agree where no divisor is zero\<close>

text \<open>
  With a non-zero total mass, \<^verbatim>\<open>positionalCorrection\<close> over the numbers with special
  values gives the positions of the real-valued model; with non-zero masses, a non-zero
  sum of inverse masses and a non-negative product of the friction coefficients,
  \<^verbatim>\<open>resolveVelocity\<close> gives the velocities of the real-valued model.
\<close>

lemma JV_simps [simp]: "jx (JV v) = Num (vec_x v)" "jy (JV v) = Num (vec_y v)"
  by (simp_all add: JV_def)

lemma js_sub_Num [simp]: "js_sub (Num a) (Num b) = Num (a - b)"
  by (simp add: js_sub_def)

lemma JV_ops:
  "JVector2_add (JV a) (JV b) = JV (Vector2_add a b)"
  "JVector2_subtract (JV a) (JV b) = JV (Vector2_subtract a b)"
  "JVector2_multiply (JV a) (Num s) = JV (Vector2_multiply a s)"
  "JVector2_dot (JV a) (JV b) = Num (Vector2_dot a b)"
  "JVector2_magnitudeSquared (JV a) = Num (Vector2_magnitudeSquared a)"
  by (simp_all add: JV_def JVector2_add_def JVector2_subtract_def JVector2_multiply_def
      JVector2_dot_def JVector2_magnitudeSquared_def Vector2_add_def Vector2_subtract_def
      Vector2_multiply_def Vector2_dot_def Vector2_magnitudeSquared_def)

lemma positionalCorrection_ieee_finite:
  assumes "mass objA + mass objB \<noteq> 0"
  shows "positionalCorrection_ieee objA objB c
         = (JV (position (fst (positionalCorrection objA objB c))),
            JV (position (snd (positionalCorrection objA objB c))))"
  using assms
  by (simp add: positionalCorrection_ieee_def positionalCorrection_def Let_def JV_ops)

lemma JV_normalize: "JVector2_normalize (JV t) = JV (Vector2_normalize t)"
proof -
  have m: "js_sqrt (JVector2_magnitudeSquared (JV t)) = Num (Vector2_magnitude t)"
    by (simp add: JV_ops Vector2_magnitude_def Vector2_magnitudeSquared_def)
  show ?thesis
    unfolding JVector2_normalize_def Vector2_normalize_def Let_def m by (simp add: js_gt_def JV_def)
qed

lemma applyFriction_ieee_finite:
  assumes "mass objA \<noteq> 0" "mass objB \<noteq> 0" "1 / mass objA + 1 / mass objB \<noteq> 0"
    "0 \<le> friction objA * friction objB"
  shows "applyFriction_ieee objA objB (JV vA) (JV vB) c (Num ni)
         = (JV (velocity (fst (applyFriction (objA\<lparr>velocity := vA\<rparr>) (objB\<lparr>velocity := vB\<rparr>) c ni))),
            JV (velocity (snd (applyFriction (objA\<lparr>velocity := vA\<rparr>) (objB\<lparr>velocity := vB\<rparr>) c ni))))"
  using assms
  by (simp add: applyFriction_ieee_def applyFriction_def Let_def JV_ops JV_normalize hasTag_def)

lemma resolveVelocity_ieee_finite:
  assumes "mass objA \<noteq> 0" "mass objB \<noteq> 0" "1 / mass objA + 1 / mass objB \<noteq> 0"
    "0 \<le> friction objA * friction objB"
  shows "resolveVelocity_ieee objA objB c
         = (JV (velocity (fst (resolveVelocity objA objB c))),
            JV (velocity (snd (resolveVelocity objA objB c))))"
proof (cases "Vector2_dot (Vector2_subtract (velocity objB) (velocity objA)) (normal c) > 0")
  case True
  then show ?thesis by (simp add: resolveVelocity_ieee_def resolveVelocity_def Let_def)
next
  case False
  define imp where "imp = (- (1 + min (bounciness objA) (bounciness objB))
        * Vector2_dot (Vector2_subtract (velocity objB) (velocity objA)) (normal c))
        / (1 / mass objA + 1 / mass objB)"
  define vA where "vA = (if solid objA \<and> \<not> hasTag objA ''static''
      then Vector2_subtract (velocity objA) (Vector2_multiply (Vector2_multiply (normal c) imp) (1 / mass objA))
      else velocity objA)"
  define vB where "vB = (if solid objB \<and> \<not> hasTag objB ''static''
      then Vector2_add (velocity objB) (Vector2_multiply (Vector2_multiply (normal c) imp) (1 / mass objB))
      else velocity objB)"
  have r: "resolveVelocity objA objB c = applyFriction (objA\<lparr>velocity := vA\<rparr>) (objB\<lparr>velocity := vB\<rparr>) c imp"
    using False by (simp add: resolveVelocity_def Let_def vA_def vB_def imp_def)
  have i: "resolveVelocity_ieee objA objB c = applyFriction_ieee objA objB (JV vA) (JV vB) c (Num imp)"
    using False assms(1-3)
    by (simp add: resolveVelocity_ieee_def Let_def vA_def vB_def imp_def JV_ops)
  show ?thesis unfolding r i using assms by (rule applyFriction_ieee_finite)
qed

subsection \<open>Zero-length ray direction and zero mass\<close>

text \<open>\<^verbatim>\<open>raycast\<close> either throws or finds nothing: \<^verbatim>\<open>getObjectsInRay\<close> throws as soon as
  its loop is entered, and returns no object otherwise.\<close>

lemma getObjectsInRay_cases:
  "getObjectsInRay maxDist = (if 0 < maxDist then Inl TypeError else Inr [])"
  by (simp add: getObjectsInRay_def)

lemma raycast_throws_or_empty:
  "raycast objects orig dir maxDist layerMask = (if 0 < maxDist then Inl TypeError else Inr [])"
  by (simp add: raycast_def getObjectsInRay_def Let_def)

lemma normalized_zero: "Vector2_normalized \<lparr>vec_x = 0, vec_y = 0\<rparr> = \<lparr>vec_x = 0, vec_y = 0\<rparr>"
  by (simp add: Vector2_normalized_def Vector2_magnitude_def Vector2_zero_def)


text \<open>A ray with a zero direction whose origin lies strictly inside a box hits the box,
  at distance \<^verbatim>\<open>Infinity\<close> and at a point that is not a number.\<close>

lemma raycastAABB_zero_direction_inside:
  assumes "ray_direction r = \<lparr>vec_x = 0, vec_y = 0\<rparr>"
    "b_x bounds < vec_x (ray_origin r)" "vec_x (ray_origin r) < b_x bounds + b_width bounds"
    "b_y bounds < vec_y (ray_origin r)" "vec_y (ray_origin r) < b_y bounds + b_height bounds"
  shows "raycastAABB r bounds
     = Some \<lparr>hit_point = \<lparr>jx = NaN, jy = NaN\<rparr>, hit_normal = \<lparr>vec_x = 0, vec_y = 1\<rparr>,
             hit_distance = PInf\<rparr>"
  using assms
  by (simp add: raycastAABB_def Let_def js_inf_def js_min_def js_max_def js_gt_def js_sub_def
      JVector2_add_def JVector2_multiply_def)

text \<open>
  C7 at concrete inputs.  None of the divisions is guarded.
  \<^item> \<^verbatim>\<open>raycastAABB\<close> with the zero direction that \<^verbatim>\<open>raycast\<close> passes on, from (5, 5)
    inside the box (0, 0, 10, 10): a hit, with distance \<^verbatim>\<open>Infinity\<close> and point
    (\<^verbatim>\<open>NaN\<close>, \<^verbatim>\<open>NaN\<close>), where the claim says no hit.
  \<^item> \<^verbatim>\<open>raycast\<close> itself with the default range 1000: a \<^verbatim>\<open>TypeError\<close>, thrown by
    \<^verbatim>\<open>getObjectsInRay\<close> whatever the direction.
  \<^item> \<^verbatim>\<open>resolveVelocity\<close> for a solid object A of mass 0 resting against B: both
    velocities become \<^verbatim>\<open>NaN\<close>, where the claim says no impulse.
  \<^item> \<^verbatim>\<open>positionalCorrection\<close> for two solid objects of mass 0: both positions become
    \<^verbatim>\<open>NaN\<close>, where the claim says the positions stay well-defined.
\<close>

theorem degenerate_inputs_unguarded:
  "raycastAABB example_inside_ray (getBounds (GameObject_new 5 0 0 10 10))
     = Some \<lparr>hit_point = \<lparr>jx = NaN, jy = NaN\<rparr>, hit_normal = \<lparr>vec_x = 0, vec_y = 1\<rparr>,
             hit_distance = PInf\<rparr>
   \<and> raycast [GameObject_new 5 0 0 10 10] \<lparr>vec_x = 5, vec_y = 5\<rparr> \<lparr>vec_x = 0, vec_y = 0\<rparr> 1000 None
     = Inl TypeError
   \<and> resolveVelocity_ieee ((GameObject_new 5 0 0 10 10)\<lparr>mass := 0\<rparr>) (GameObject_new 6 8 0 10 10)
        \<lparr>normal = \<lparr>vec_x = - 1, vec_y = 0\<rparr>, penetration = 2, point = \<lparr>vec_x = 9, vec_y = 5\<rparr>\<rparr>
     = (\<lparr>jx = NaN, jy = NaN\<rparr>, \<lparr>jx = NaN, jy = NaN\<rparr>)
   \<and> positionalCorrection_ieee ((GameObject_new 5 0 0 10 10)\<lparr>mass := 0\<rparr>)
        ((GameObject_new 6 8 0 10 10)\<lparr>mass := 0\<rparr>)
        \<lparr>normal = \<lparr>vec_x = - 1, vec_y = 0\<rparr>, penetration = 2, point = \<lparr>vec_x = 9, vec_y = 5\<rparr>\<rparr>
     = (\<lparr>jx = NaN, jy = NaN\<rparr>, \<lparr>jx = NaN, jy = NaN\<rparr>)"
proof (intro conjI)
  show "raycastAABB example_inside_ray (getBounds (GameObject_new 5 0 0 10 10))
     = Some \<lparr>hit_point = \<lparr>jx = NaN, jy = NaN\<rparr>, hit_normal = \<lparr>vec_x = 0, vec_y = 1\<rparr>,
             hit_distance = PInf\<rparr>"
    by (simp add: raycastAABB_def example_inside_ray_def normalized_zero getBounds_def
        GameObject_new_simps Let_def js_inf_def js_min_def js_max_def js_gt_def js_sub_def
        JVector2_add_def JVector2_multiply_def)
  show "raycast [GameObject_new 5 0 0 10 10] \<lparr>vec_x = 5, vec_y = 5\<rparr> \<lparr>vec_x = 0, vec_y = 0\<rparr> 1000 None
     = Inl TypeError"
    by (simp add: raycast_throws_or_empty)
  show "resolveVelocity_ieee ((GameObject_new 5 0 0 10 10)\<lparr>mass := 0\<rparr>) (GameObject_new 6 8 0 10 10)
        \<lparr>normal = \<lparr>vec_x = - 1, vec_y = 0\<rparr>, penetration = 2, point = \<lparr>vec_x = 9, vec_y = 5\<rparr>\<rparr>
     = (\<lparr>jx = NaN, jy = NaN\<rparr>, \<lparr>jx = NaN, jy = NaN\<rparr>)"
    by (simp add: resolveVelocity_ieee_def applyFriction_ieee_def GameObject_new_simps Let_def
        Vector2_subtract_def Vector2_dot_def js_inf_def JVector2_multiply_def JVector2_subtract_def
        JVector2_add_def JVector2_dot_def JVector2_magnitudeSquared_def JVector2_normalize_def
        js_sub_def js_gt_def hasTag_def)
  show "positionalCorrection_ieee ((GameObject_new 5 0 0 10 10)\<lparr>mass := 0\<rparr>)
        ((GameObject_new 6 8 0 10 10)\<lparr>mass := 0\<rparr>)
        \<lparr>normal = \<lparr>vec_x = - 1, vec_y = 0\<rparr>, penetration = 2, point = \<lparr>vec_x = 9, vec_y = 5\<rparr>\<rparr>
     = (\<lparr>jx = NaN, jy = NaN\<rparr>, \<lparr>jx = NaN, jy = NaN\<rparr>)"
    by (simp add: positionalCorrection_ieee_def GameObject_new_simps Let_def
        JVector2_multiply_def JVector2_subtract_def JVector2_add_def js_sub_def)
qed


end
